theory Spec2Isabelle
  imports Main "HOL-Library.Word" "HOL-Library.Sublist"
begin

section \<open>JavaScript strings\<close>

text \<open>
  A JavaScript string is a sequence of UTF-16 code units: \<open>s.length\<close> counts code units,
  \<open>includes\<close>, \<open>substring\<close> and regular expressions without the \<open>u\<close> flag work on code
  units, and only \<open>for (const ch of s)\<close> and \<open>codePointAt\<close> join surrogate pairs.
\<close>

type_synonym unit16 = "16 word"
type_synonym jsstring = "unit16 list"

text \<open>A string literal of the source (all literals of the modelled code are ASCII).\<close>

definition lit :: "string \<Rightarrow> jsstring" where
  "lit s = map of_char s"

definition isHighSurrogate :: "unit16 \<Rightarrow> bool" where
  "isHighSurrogate c = (0xD800 \<le> c \<and> c \<le> 0xDBFF)"

definition isLowSurrogate :: "unit16 \<Rightarrow> bool" where
  "isLowSurrogate c = (0xDC00 \<le> c \<and> c \<le> 0xDFFF)"

text \<open>
  The string iterator behind \<open>for (const ch of geezWord)\<close>: one string per code point,
  two code units for a well-formed surrogate pair, one code unit otherwise (a lone
  surrogate is a character of its own).
\<close>

fun chars :: "jsstring \<Rightarrow> jsstring list" where
  "chars [] = []"
| "chars [c] = [[c]]"
| "chars (c # d # cs) =
     (if isHighSurrogate c \<and> isLowSurrogate d then [c, d] # chars cs
      else [c] # chars (d # cs))"

text \<open>\<open>ch.codePointAt(0)\<close>; the empty string gives \<open>undefined\<close>, which the iterator never yields.\<close>

fun codePointAt0 :: "jsstring \<Rightarrow> nat" where
  "codePointAt0 [] = 0"
| "codePointAt0 [c] = unat c"
| "codePointAt0 (c # d # cs) =
     (if isHighSurrogate c \<and> isLowSurrogate d
      then 0x10000 + (unat c - 0xD800) * 0x400 + (unat d - 0xDC00)
      else unat c)"

section \<open>Transliteration engine (interlinear.js)\<close>

text \<open>The consonant rows of \<open>buildTranslitTable\<close>, in the order of the source.\<close>

definition rows :: "(nat \<times> jsstring) list" where
  \<open>rows =
    [(0x1200, lit ''h''), (0x1208, lit ''l''), (0x1210, lit ''H''), (0x1218, lit ''m''),
     (0x1220, lit ''s'' @ [0x27]), (0x1228, lit ''r''), (0x1230, lit ''s''),
     (0x1238, lit ''sh''), (0x1240, lit ''q''), (0x1248, lit ''qw''), (0x1250, lit ''b''),
     (0x1258, lit ''bw''), (0x1260, lit ''b''), (0x1268, lit ''v''), (0x1270, lit ''t''),
     (0x1278, lit ''ch''), (0x1280, lit ''kh''), (0x1288, lit ''khw''), (0x1290, lit ''n''),
     (0x1298, lit ''ny''), (0x12A0, [0x27]), (0x12A8, lit ''k''), (0x12B0, lit ''kw''),
     (0x12B8, lit ''kx''), (0x12C0, lit ''kx''), (0x12C8, lit ''w''), (0x12D0, lit ''`''),
     (0x12D8, lit ''z''), (0x12E0, lit ''zh''), (0x12E8, lit ''y''), (0x12F0, lit ''d''),
     (0x12F8, lit ''dd''), (0x1300, lit ''j''), (0x1308, lit ''g''), (0x1310, lit ''gw''),
     (0x1318, lit ''ggw''), (0x1320, lit ''T''), (0x1328, lit ''P''), (0x1330, lit ''ts''),
     (0x1338, lit ''ts'' @ [0x27]), (0x1340, lit ''f''), (0x1348, lit ''p'')]\<close>

definition vowels :: "jsstring list" where
  "vowels = [lit ''a'', lit ''u'', lit ''i'', lit ''a'', lit ''e'', [], lit ''o'']"

text \<open>
  The table is a plain object keyed by code point. The body of the outer loop: the inner
  loop \<open>for (let v = 0; v < 7; v++)\<close>, then the assignment of the eighth form.
\<close>

definition buildRow :: "(nat \<rightharpoonup> jsstring) \<Rightarrow> nat \<times> jsstring \<Rightarrow> (nat \<rightharpoonup> jsstring)" where
  "buildRow T r =
     (case r of (base, cons) \<Rightarrow>
        (foldl (\<lambda>T' v. T'(base + v \<mapsto> cons @ vowels ! v)) T [0..<7])
          (base + 7 \<mapsto> cons @ lit ''wa''))"

definition buildTranslitTable :: "(nat \<rightharpoonup> jsstring) \<Rightarrow> (nat \<rightharpoonup> jsstring)" where
  "buildTranslitTable T = foldl buildRow T rows"

text \<open>\<open>const TRANSLIT_BASES = {}; buildTranslitTable();\<close> at load time; no later write.\<close>

definition TRANSLIT_BASES :: "nat \<rightharpoonup> jsstring" where
  "TRANSLIT_BASES = buildTranslitTable Map.empty"

text \<open>
  One iteration of the loop of \<open>transliterate\<close>. \<open>if (TRANSLIT_BASES[cp])\<close> tests
  truthiness: a missing key (\<open>undefined\<close>) and an empty string are both falsy.
\<close>

definition translitStep :: "(nat \<rightharpoonup> jsstring) \<Rightarrow> jsstring \<Rightarrow> jsstring \<Rightarrow> jsstring" where
  "translitStep T result ch =
     (let cp = codePointAt0 ch;
          other = (if 0x1200 \<le> cp \<and> cp \<le> 0x137F then result @ lit ''?'' else result @ ch)
      in case T cp of
           Some syl \<Rightarrow> if syl \<noteq> [] then result @ syl else other
         | None \<Rightarrow> other)"

definition transliterate :: "jsstring \<Rightarrow> jsstring" where
  "transliterate geezWord = foldl (translitStep TRANSLIT_BASES) [] (chars geezWord)"

section \<open>Built-ins of the JavaScript runtime\<close>

text \<open>
  The case mappings are Unicode tables of the runtime, not code of this repository; they
  are parameters of the model. \<open>toLowerCase\<close> is \<open>String.prototype.toLowerCase\<close>;
  \<open>canonicalize\<close> is the per-code-unit case folding of a regular expression with the
  \<open>i\<close> flag and without the \<open>u\<close> flag.
\<close>

record runtime =
  toLowerCase :: "jsstring \<Rightarrow> jsstring"
  canonicalize :: "unit16 \<Rightarrow> unit16"

text \<open>The two mappings on ASCII text, where every runtime agrees.\<close>

definition asciiLower :: "unit16 \<Rightarrow> unit16" where
  "asciiLower c = (if 0x41 \<le> c \<and> c \<le> 0x5A then c + 0x20 else c)"

definition asciiUpper :: "unit16 \<Rightarrow> unit16" where
  "asciiUpper c = (if 0x61 \<le> c \<and> c \<le> 0x7A then c - 0x20 else c)"

definition asciiRuntime :: runtime where
  "asciiRuntime = \<lparr>toLowerCase = map asciiLower, canonicalize = asciiUpper\<rparr>"

text \<open>\<open>s.includes(q)\<close>: \<open>q\<close> occurs in \<open>s\<close> as a contiguous run of code units.\<close>

fun startsWith :: "jsstring \<Rightarrow> jsstring \<Rightarrow> bool" where
  "startsWith s [] = True"
| "startsWith [] (p # ps) = False"
| "startsWith (c # cs) (p # ps) = (c = p \<and> startsWith cs ps)"

fun includesStr :: "jsstring \<Rightarrow> jsstring \<Rightarrow> bool" where
  "includesStr [] q = (q = [])"
| "includesStr (c # cs) q = (startsWith (c # cs) q \<or> includesStr cs q)"

text \<open>\<open>s.trim()\<close> strips the white space and line terminators of ECMAScript at both ends.\<close>

definition isWhiteSpace :: "unit16 \<Rightarrow> bool" where
  "isWhiteSpace c =
     ((0x09 \<le> c \<and> c \<le> 0x0D) \<or> c = 0x20 \<or> c = 0xA0 \<or> c = 0x1680 \<or>
      (0x2000 \<le> c \<and> c \<le> 0x200A) \<or> c = 0x2028 \<or> c = 0x2029 \<or> c = 0x202F \<or>
      c = 0x205F \<or> c = 0x3000 \<or> c = 0xFEFF)"

definition trim :: "jsstring \<Rightarrow> jsstring" where
  "trim s = rev (dropWhile isWhiteSpace (rev (dropWhile isWhiteSpace s)))"

text \<open>\<open>a || b\<close> on an optional string: \<open>undefined\<close> and the empty string are falsy.\<close>

fun orElse :: "jsstring option \<Rightarrow> jsstring \<Rightarrow> jsstring" where
  "orElse None d = d"
| "orElse (Some s) d = (if s \<noteq> [] then s else d)"

text \<open>Decimal rendering of a number that is concatenated to a string.\<close>

fun showNat :: "nat \<Rightarrow> jsstring" where
  "showNat n =
     (if n < 10 then [of_nat (48 + n)]
      else showNat (n div 10) @ [of_nat (48 + n mod 10)])"

definition showInt :: "int \<Rightarrow> jsstring" where
  "showInt i = (if i < 0 then lit ''-'' @ showNat (nat (- i)) else showNat (nat i))"

text \<open>\<open>/^\d+$/.test(query)\<close> and \<open>parseInt(query)\<close> on such a query.\<close>

definition isDigit :: "unit16 \<Rightarrow> bool" where
  "isDigit c = (0x30 \<le> c \<and> c \<le> 0x39)"

definition allDigits :: "jsstring \<Rightarrow> bool" where
  "allDigits s = (s \<noteq> [] \<and> list_all isDigit s)"

text \<open>
  Numbers are modelled as mathematical integers. A JavaScript number is a double, which
  is exact below \<open>2 ^ 53\<close>, so the model is the code for digit strings of at most 15
  digits and for gematria values in that range.
\<close>

definition parseInt :: "jsstring \<Rightarrow> int" where
  "parseInt s = foldl (\<lambda>n c. 10 * n + int (unat c - 48)) 0 s"

text \<open>\<open>loc.split(':')[0]\<close> and \<open>loc.replace(':', '-')\<close> (the first colon only).\<close>

definition splitColon0 :: "jsstring \<Rightarrow> jsstring" where
  "splitColon0 s = takeWhile (\<lambda>c. c \<noteq> 0x3A) s"

fun replaceColon :: "jsstring \<Rightarrow> jsstring" where
  "replaceColon [] = []"
| "replaceColon (c # cs) = (if c = 0x3A then 0x2D # cs else c # replaceColon cs)"

section \<open>Data model (words.json, search\_index.json)\<close>

record entry =
  definition_field :: "jsstring option"
  english_definition :: "jsstring option"
  transliteration :: "jsstring option"
  root :: "jsstring option"
  gematria :: "int option"

record verse =
  ref :: jsstring
  english :: jsstring
  words :: "jsstring list"

text \<open>
  The lexicon object is represented by \<open>Object.entries\<close> of it: its keys with their
  entries, in the iteration order of the object.
\<close>

type_synonym lexicon = "(jsstring \<times> entry) list"

record searchindex =
  index_verses :: "verse list"
  index_words :: lexicon

section \<open>Search (search.js)\<close>

subsection \<open>Loading the index\<close>

text \<open>
  What the page offers to \<open>loadSearchIndex\<close>: the two fetches (\<open>None\<close> when the fetch or
  the JSON parse throws), the global \<open>wordData\<close> of word-modal.js (\<open>None\<close> for \<open>null\<close>),
  and whether the page is a chapter page. A fetched document here has the shape the
  specification gives it, an index document with its array of verses; the last subsection
  reads the same code with the index document's shape left open.
\<close>

record env =
  isChapter :: bool
  fetchSearchIndex :: "verse list option"
  wordDataGlobal :: "lexicon option"
  fetchWords :: "lexicon option"

record state =
  searchIndex :: "searchindex option"
  resultsHtml :: jsstring

definition loadSearchIndex :: "env \<Rightarrow> state \<Rightarrow> searchindex option \<times> state" where
  "loadSearchIndex e st =
     (case searchIndex st of
        Some ix \<Rightarrow> (Some ix, st)
      | None \<Rightarrow>
          (case fetchSearchIndex e of
             None \<Rightarrow> (None, st)
           | Some vs \<Rightarrow>
               (case (case wordDataGlobal e of Some w \<Rightarrow> Some w | None \<Rightarrow> fetchWords e) of
                  None \<Rightarrow> (None, st)
                | Some w \<Rightarrow>
                    (let ix = \<lparr>index_verses = vs, index_words = w\<rparr>
                     in (Some ix, st\<lparr>searchIndex := Some ix\<rparr>)))))"

subsection \<open>The three passes\<close>

record match =
  geez :: jsstring
  data :: entry

record wordmatch = match +
  matchType :: jsstring

text \<open>The test of the query against the character class from U+1200 to U+137F.\<close>

definition isGeezQuery :: "jsstring \<Rightarrow> bool" where
  "isGeezQuery query = list_ex (\<lambda>c. 0x1200 \<le> c \<and> c \<le> 0x137F) query"

text \<open>The body of the first loop over \<open>Object.entries(index.words)\<close>.\<close>

definition wordStep :: "runtime \<Rightarrow> jsstring \<Rightarrow> wordmatch list \<Rightarrow> jsstring \<times> entry \<Rightarrow> wordmatch list" where
  \<open>wordStep rt query wordMatches e =
     (case e of (g, d) \<Rightarrow>
        (let q = toLowerCase rt query;
             isGeez = isGeezQuery query;
             r = (if isGeez \<and> includesStr g query then (True, lit ''Ge'ez match'')
                  else if \<not> isGeez then
                    (let def = toLowerCase rt (orElse (definition_field d) []);
                         engDef = toLowerCase rt (orElse (english_definition d) []);
                         trans = toLowerCase rt (orElse (transliteration d) []);
                         rootl = toLowerCase rt (orElse (root d) [])
                     in if includesStr def q then (True, lit ''Definition'')
                        else if includesStr engDef q then (True, lit ''Modern definition'')
                        else if includesStr trans q then (True, lit ''Transliteration'')
                        else if includesStr rootl q then (True, lit ''Root'')
                        else (False, []))
                  else (False, []))
         in if fst r
            then wordMatches @ [\<lparr>geez = g, data = d, matchType = snd r\<rparr>]
            else wordMatches))\<close>

definition wordPass :: "runtime \<Rightarrow> searchindex \<Rightarrow> jsstring \<Rightarrow> wordmatch list" where
  "wordPass rt index query = foldl (wordStep rt query) [] (index_words index)"

definition versePass :: "runtime \<Rightarrow> searchindex \<Rightarrow> jsstring \<Rightarrow> verse list" where
  "versePass rt index query =
     (if \<not> isGeezQuery query
      then foldl (\<lambda>verseMatches v.
                    if includesStr (toLowerCase rt (english v)) (toLowerCase rt query)
                    then verseMatches @ [v] else verseMatches) [] (index_verses index)
      else [])"

definition gematriaPass :: "searchindex \<Rightarrow> jsstring \<Rightarrow> match list" where
  "gematriaPass index query =
     (if allDigits query
      then (let num = parseInt query
            in foldl (\<lambda>gematriaMatches e.
                        case e of (g, d) \<Rightarrow>
                          if gematria d = Some num
                          then gematriaMatches @ [\<lparr>geez = g, data = d\<rparr>]
                          else gematriaMatches) [] (index_words index))
      else [])"

text \<open>
  \<open>performSearch\<close> up to the line \<open>// Build results HTML\<close>: the guard, the load and
  the three passes. The two early returns are outcomes of their own.
\<close>

datatype outcome =
  TooShort
| IndexUnavailable
| Matches searchindex "wordmatch list" "verse list" "match list"

definition search :: "runtime \<Rightarrow> env \<Rightarrow> state \<Rightarrow> jsstring \<Rightarrow> outcome \<times> state" where
  "search rt e st query =
     (if query = [] \<or> length query < 2 then (TooShort, st)
      else case loadSearchIndex e st of
             (None, st') \<Rightarrow> (IndexUnavailable, st')
           | (Some index, st') \<Rightarrow>
               (Matches index (wordPass rt index query) (versePass rt index query)
                  (gematriaPass index query), st'))"

fun wordMatches :: "outcome \<Rightarrow> wordmatch list" where
  "wordMatches (Matches index wm vm gm) = wm"
| "wordMatches _ = []"

fun verseMatches :: "outcome \<Rightarrow> verse list" where
  "verseMatches (Matches index wm vm gm) = vm"
| "verseMatches _ = []"

fun gematriaMatches :: "outcome \<Rightarrow> match list" where
  "gematriaMatches (Matches index wm vm gm) = gm"
| "gematriaMatches _ = []"

subsection \<open>Utilities\<close>

text \<open>
  \<open>escapeHtml\<close> sets \<open>textContent\<close> and reads \<open>innerHTML\<close>: the HTML serialisation of a
  text node, which escapes \<open>&\<close>, \<open><\<close>, \<open>>\<close> and the no-break space, and no quote.
\<close>

definition escapeUnit :: "unit16 \<Rightarrow> jsstring" where
  \<open>escapeUnit c =
     (if c = 0x26 then lit ''&amp;''
      else if c = 0xA0 then lit ''&nbsp;''
      else if c = 0x3C then lit ''&lt;''
      else if c = 0x3E then lit ''&gt;''
      else [c])\<close>

definition escapeHtml :: "jsstring \<Rightarrow> jsstring" where
  "escapeHtml text = concat (map escapeUnit text)"

text \<open>
  \<open>highlightMatch\<close>: the query is escaped into a literal pattern, so the regular
  expression matches the code units of the query up to \<open>canonicalize\<close>; \<open>replace\<close> with
  the \<open>g\<close> flag wraps every match, left to right, and goes on after the match.
\<close>

fun matchesAt :: "(unit16 \<Rightarrow> unit16) \<Rightarrow> jsstring \<Rightarrow> jsstring \<Rightarrow> bool" where
  "matchesAt canon [] text = True"
| "matchesAt canon (p # ps) [] = False"
| "matchesAt canon (p # ps) (c # cs) = (canon p = canon c \<and> matchesAt canon ps cs)"

fun replaceMatches :: "(unit16 \<Rightarrow> unit16) \<Rightarrow> jsstring \<Rightarrow> jsstring \<Rightarrow> jsstring" where
  \<open>replaceMatches canon pat [] = []\<close>
| \<open>replaceMatches canon pat (c # cs) =
     (if pat \<noteq> [] \<and> matchesAt canon pat (c # cs)
      then lit ''<mark class="search-highlight">'' @ take (length pat) (c # cs) @ lit ''</mark>'' @
           replaceMatches canon pat (drop (length pat - 1) cs)
      else c # replaceMatches canon pat cs)\<close>

definition highlightMatch :: "runtime \<Rightarrow> jsstring \<Rightarrow> jsstring \<Rightarrow> jsstring" where
  "highlightMatch rt text query =
     (if query = [] then text else replaceMatches (canonicalize rt) query text)"

subsection \<open>Building the result markup\<close>

definition chapterBase :: "env \<Rightarrow> jsstring" where
  "chapterBase e = (if isChapter e then [] else lit ''1_enoch/'')"

text \<open>The body of the loop \<open>for (const wm of shown)\<close>.\<close>

definition wordItem :: "env \<Rightarrow> searchindex \<Rightarrow> jsstring \<Rightarrow> wordmatch \<Rightarrow> jsstring" where
  \<open>wordItem e index html wm =
     (let d = data wm;
          def = orElse (definition_field d) (orElse (english_definition d) []);
          trans = orElse (transliteration d) [];
          locations = foldl (\<lambda>locations v.
                               if geez wm \<in> set (words v) then locations @ [ref v]
                               else locations) [] (index_verses index);
          html1 = html @ lit ''<div class="search-result-item">'' @
                    lit ''<div class="search-result-word">'' @
                      lit ''<span class="search-geez">'' @ geez wm @ lit ''</span>'' @
                      lit ''<span class="search-trans">'' @ trans @ lit ''</span>'' @
                      lit ''<span class="search-match-type">'' @ matchType wm @ lit ''</span>'' @
                    lit ''</div>'' @
                    lit ''<div class="search-result-def">'' @ escapeHtml def @ lit ''</div>'' @
                    lit ''<div class="search-result-locations">'';
          html2 = (if length locations > 0
                   then foldl (\<lambda>h loc.
                                 h @ lit ''<a href="'' @ chapterBase e @ splitColon0 loc @
                                   lit ''.html#v'' @ replaceColon loc @
                                   lit ''" class="search-verse-link">'' @ loc @ lit ''</a>'')
                          html1 locations
                   else html1)
      in html2 @ lit ''</div></div>'')\<close>

definition wordSection :: "env \<Rightarrow> searchindex \<Rightarrow> wordmatch list \<Rightarrow> jsstring \<Rightarrow> jsstring" where
  \<open>wordSection e index wms html =
     (if length wms > 0
      then (let html1 = html @ lit ''<div class="search-section-label">Words ('' @
                          showNat (length wms) @ lit '')</div>'';
                shown = take 50 wms;
                html2 = foldl (wordItem e index) html1 shown
            in if length wms > 50
               then html2 @ lit ''<div class="search-more">... and '' @
                      showNat (length wms - 50) @ lit '' more word matches</div>''
               else html2)
      else html)\<close>

text \<open>The body of the loop \<open>for (const vm of shown)\<close>.\<close>

definition verseItem :: "runtime \<Rightarrow> env \<Rightarrow> jsstring \<Rightarrow> jsstring \<Rightarrow> verse \<Rightarrow> jsstring" where
  \<open>verseItem rt e q html vm =
     (let ch = splitColon0 (ref vm);
          highlighted = highlightMatch rt (escapeHtml (english vm)) q
      in html @ lit ''<div class="search-result-item">'' @
           lit ''<a href="'' @ chapterBase e @ ch @ lit ''.html#v'' @ replaceColon (ref vm) @
           lit ''" class="search-verse-ref">'' @ ref vm @ lit ''</a>'' @
           lit ''<div class="search-verse-text">'' @ highlighted @ lit ''</div>'' @
         lit ''</div>'')\<close>

definition verseSection :: "runtime \<Rightarrow> env \<Rightarrow> jsstring \<Rightarrow> verse list \<Rightarrow> jsstring \<Rightarrow> jsstring" where
  \<open>verseSection rt e q vms html =
     (if length vms > 0
      then (let html1 = html @ lit ''<div class="search-section-label">Verses ('' @
                          showNat (length vms) @ lit '')</div>'';
                shown = take 30 vms;
                html2 = foldl (verseItem rt e q) html1 shown
            in if length vms > 30
               then html2 @ lit ''<div class="search-more">... and '' @
                      showNat (length vms - 30) @ lit '' more verse matches</div>''
               else html2)
      else html)\<close>

text \<open>The body of the loop \<open>for (const gm of gematriaMatches)\<close>.\<close>

definition gematriaItem :: "jsstring \<Rightarrow> match \<Rightarrow> jsstring" where
  \<open>gematriaItem html gm =
     (let def = orElse (definition_field (data gm)) (orElse (english_definition (data gm)) [])
      in html @ lit ''<div class="search-result-item">'' @
           lit ''<span class="search-geez">'' @ geez gm @ lit ''</span> '' @
           lit ''<span class="search-trans">'' @ orElse (transliteration (data gm)) [] @
           lit ''</span> '' @
           lit ''<span class="search-gematria-val">G: '' @
           (case gematria (data gm) of Some n \<Rightarrow> showInt n | None \<Rightarrow> lit ''undefined'') @
           lit ''</span>'' @
           lit ''<div class="search-result-def">'' @ escapeHtml def @ lit ''</div>'' @
         lit ''</div>'')\<close>

definition gematriaSection :: "jsstring \<Rightarrow> match list \<Rightarrow> jsstring \<Rightarrow> jsstring" where
  \<open>gematriaSection query gms html =
     (if length gms > 0
      then foldl gematriaItem
             (html @ lit ''<div class="search-section-label">Gematria = '' @ query @
                lit '' ('' @ showNat (length gms) @ lit '')</div>'') gms
      else html)\<close>

definition buildHtml ::
  "runtime \<Rightarrow> env \<Rightarrow> jsstring \<Rightarrow> searchindex \<Rightarrow> wordmatch list \<Rightarrow> verse list \<Rightarrow> match list \<Rightarrow> jsstring" where
  \<open>buildHtml rt e query index wms vms gms =
     (let q = toLowerCase rt query;
          html1 = wordSection e index wms [];
          html2 = verseSection rt e q vms html1;
          html3 = gematriaSection query gms html2;
          html4 = (if length wms = 0 \<and> length vms = 0 \<and> length gms = 0
                   then lit ''<div class="search-empty">No results for "'' @ escapeHtml query @
                          lit ''"</div>''
                   else html3);
          total = length wms + length vms + length gms
      in if total > 0
         then lit ''<div class="search-summary">'' @ showNat total @ lit '' result'' @
                (if total \<noteq> 1 then lit ''s'' else []) @ lit '' found</div>'' @ html4
         else html4)\<close>

definition render :: "runtime \<Rightarrow> env \<Rightarrow> jsstring \<Rightarrow> outcome \<Rightarrow> jsstring" where
  \<open>render rt e query oc =
     (case oc of
        TooShort \<Rightarrow> lit ''<div class="search-empty">Type at least 2 characters to search</div>''
      | IndexUnavailable \<Rightarrow> lit ''<div class="search-empty">Search index not available</div>''
      | Matches index wms vms gms \<Rightarrow> buildHtml rt e query index wms vms gms)\<close>

text \<open>\<open>performSearch\<close> writes the markup into \<open>resultsDiv.innerHTML\<close>.\<close>

definition performSearch :: "runtime \<Rightarrow> env \<Rightarrow> state \<Rightarrow> jsstring \<Rightarrow> state" where
  "performSearch rt e st query =
     (case search rt e st query of (oc, st') \<Rightarrow> st'\<lparr>resultsHtml := render rt e query oc\<rparr>)"

text \<open>The input handler of the search box: \<open>performSearch(input.value.trim())\<close>.\<close>

definition onInput :: "runtime \<Rightarrow> env \<Rightarrow> state \<Rightarrow> jsstring \<Rightarrow> state" where
  "onInput rt e st val = performSearch rt e st (trim val)"

subsection \<open>The search with the shape of the fetched document left open\<close>

text \<open>
  \<open>loadSearchIndex\<close> tests neither \<open>response.ok\<close> nor the shape of what it parsed: a
  search\_index.json that parses to an object without a \<open>verses\<close> array is stored like any
  other, with \<open>verses\<close> undefined. The definitions above are the search on documents of the
  specified shape; the following ones read the same lines with that shape left open. A
  \<open>for (const verse of index.verses)\<close> over \<open>undefined\<close> throws a TypeError, which
  \<open>performSearch\<close> does not catch: the call ends there, with the index stored and the
  results element as it was.
\<close>

datatype document = WithVerses "verse list" | WithoutVerses

record page =
  pageIsChapter :: bool
  indexDocument :: "document option"
  pageWordData :: "lexicon option"
  wordsDocument :: "lexicon option"

record loaded =
  loaded_document :: document
  loaded_words :: lexicon

record session =
  storedIndex :: "loaded option"
  shownHtml :: jsstring

datatype completion = Normal | TypeError

text \<open>The page as \<open>loadSearchIndex\<close> above sees it: a document without verses is no index.\<close>

definition envOf :: "page \<Rightarrow> env" where
  "envOf p =
     \<lparr>isChapter = pageIsChapter p,
      fetchSearchIndex = (case indexDocument p of Some (WithVerses vs) \<Rightarrow> Some vs | _ \<Rightarrow> None),
      wordDataGlobal = pageWordData p,
      fetchWords = wordsDocument p\<rparr>"

definition loadSearchDocument :: "page \<Rightarrow> session \<Rightarrow> loaded option \<times> session" where
  "loadSearchDocument p s =
     (case storedIndex s of
        Some ld \<Rightarrow> (Some ld, s)
      | None \<Rightarrow>
          (case indexDocument p of
             None \<Rightarrow> (None, s)
           | Some indexData \<Rightarrow>
               (case (case pageWordData p of Some w \<Rightarrow> Some w | None \<Rightarrow> wordsDocument p) of
                  None \<Rightarrow> (None, s)
                | Some w \<Rightarrow>
                    (let ld = \<lparr>loaded_document = indexData, loaded_words = w\<rparr>
                     in (Some ld, s\<lparr>storedIndex := Some ld\<rparr>)))))"

text \<open>
  With \<open>verses\<close> undefined the first loop over the verses is the one of the verse pass
  (any query that is not script-native), the next one the loop that collects the
  locations of a shown word match; the word pass and the gematria pass read
  \<open>index.words\<close> only.
\<close>

definition performSearchDoc :: "runtime \<Rightarrow> page \<Rightarrow> session \<Rightarrow> jsstring \<Rightarrow> completion \<times> session" where
  "performSearchDoc rt p s query =
     (if query = [] \<or> length query < 2
      then (Normal, s\<lparr>shownHtml := render rt (envOf p) query TooShort\<rparr>)
      else case loadSearchDocument p s of
             (None, s') \<Rightarrow> (Normal, s'\<lparr>shownHtml := render rt (envOf p) query IndexUnavailable\<rparr>)
           | (Some ld, s') \<Rightarrow>
               (case loaded_document ld of
                  WithVerses vs \<Rightarrow>
                    (let index = \<lparr>index_verses = vs, index_words = loaded_words ld\<rparr>
                     in (Normal, s'\<lparr>shownHtml :=
                           render rt (envOf p) query
                             (Matches index (wordPass rt index query) (versePass rt index query)
                                (gematriaPass index query))\<rparr>))
                | WithoutVerses \<Rightarrow>
                    (let index = \<lparr>index_verses = [], index_words = loaded_words ld\<rparr>;
                         wms = wordPass rt index query
                     in if \<not> isGeezQuery query then (TypeError, s')
                        else if length wms > 0 then (TypeError, s')
                        else (Normal, s'\<lparr>shownHtml :=
                                render rt (envOf p) query
                                  (Matches index wms [] (gematriaPass index query))\<rparr>))))"

text \<open>The input handler calls \<open>performSearch\<close> once for every input, one call after the other.\<close>

fun runQueries :: "runtime \<Rightarrow> page \<Rightarrow> session \<Rightarrow> jsstring list \<Rightarrow> completion list \<times> session" where
  "runQueries rt p s [] = ([], s)"
| "runQueries rt p s (q # qs) =
     (case performSearchDoc rt p s q of
        (c, s') \<Rightarrow> (case runQueries rt p s' qs of (cs, s'') \<Rightarrow> (c # cs, s'')))"

text \<open>A state of the search on well-shaped documents, as a state of this one.\<close>

definition sessionOf :: "state \<Rightarrow> session" where
  "sessionOf st =
     \<lparr>storedIndex =
        map_option (\<lambda>ix. \<lparr>loaded_document = WithVerses (index_verses ix),
                           loaded_words = index_words ix\<rparr>) (searchIndex st),
      shownHtml = resultsHtml st\<rparr>"

section \<open>Transliteration display and definition lookup (interlinear.js)\<close>

text \<open>
  \<open>getWordTranslit\<close> reads the globals \<open>geezDefs\<close> and \<open>wordData\<close> (\<open>None\<close> for \<open>null\<close> or
  not declared); of an entry only \<open>transliteration\<close> is read.
\<close>

definition getWordTranslit ::
  "(jsstring \<rightharpoonup> entry) option \<Rightarrow> (jsstring \<rightharpoonup> entry) option \<Rightarrow> jsstring \<Rightarrow> jsstring" where
  "getWordTranslit geezDefs wordData geezWord =
     (let fromWordData =
            (case wordData of
               None \<Rightarrow> transliterate geezWord
             | Some wd \<Rightarrow>
                 (case wd geezWord of
                    None \<Rightarrow> transliterate geezWord
                  | Some w \<Rightarrow>
                      (case transliteration w of
                         None \<Rightarrow> transliterate geezWord
                       | Some translit \<Rightarrow>
                           if translit \<noteq> [] then translit else transliterate geezWord)))
      in case geezDefs of
           None \<Rightarrow> fromWordData
         | Some gd \<Rightarrow>
             (case gd geezWord of
                None \<Rightarrow> fromWordData
              | Some g \<Rightarrow>
                  (case transliteration g of
                     None \<Rightarrow> fromWordData
                   | Some translit \<Rightarrow> if translit \<noteq> [] then translit else fromWordData)))"

text \<open>
  \<open>lookupDefinition\<close> works on objects that are shared by reference, so the model has a
  store: an object is the map of its own enumerable properties (what the spread
  \<open>{ ...obj }\<close> copies), a reference is an index into the list of all objects, and the
  definitions object \<open>geezDefs\<close> is the map of its own properties, each word with the
  reference of its entry (\<open>None\<close> for \<open>null\<close>). A reference always is the index of an
  object of the store. The spread copies the property map; nested values are shared.
\<close>

datatype jsvalue =
  JString jsstring
| JNumber int
| JBoolean bool
| JNull
| JRef nat

type_synonym object = "jsstring \<rightharpoonup> jsvalue"
type_synonym store = "object list"

record wordmodal =
  defs :: "(jsstring \<rightharpoonup> nat) option"
  objects :: store

text \<open>
  \<open>geezDefs[k]\<close> on the parsed JSON object: an own property, or else a property that the
  object inherits from \<open>Object.prototype\<close>. The inherited properties are given by the
  runtime: a map from their names to the references of their values, which are function
  objects (truthy) without own enumerable properties.
\<close>

definition getProperty :: "(jsstring \<rightharpoonup> nat) \<Rightarrow> (jsstring \<rightharpoonup> nat) \<Rightarrow> jsstring \<Rightarrow> nat option" where
  "getProperty inherited own k = (case own k of Some a \<Rightarrow> Some a | None \<Rightarrow> inherited k)"


definition lookupDefinition ::
  "(jsstring \<rightharpoonup> nat) \<Rightarrow> wordmodal \<Rightarrow> jsstring \<Rightarrow> nat option \<times> wordmodal" where
  "lookupDefinition inherited m geezWord =
     (case defs m of
        None \<Rightarrow> (None, m)
      | Some own \<Rightarrow>
          (case getProperty inherited own geezWord of
             Some a \<Rightarrow> (Some a, m)
           | None \<Rightarrow>
               if length geezWord > 1
               then (let trimmed = take (length geezWord - 1) geezWord
                     in case getProperty inherited own trimmed of
                          Some a \<Rightarrow>
                            (let def = objects m ! a;
                                 def1 = def(lit ''hasVariant'' \<mapsto> JBoolean True);
                                 def2 = def1(lit ''variantNote'' \<mapsto> JString (lit ''(variant form)''))
                             in (Some (length (objects m)), m\<lparr>objects := objects m @ [def2]\<rparr>))
                        | None \<Rightarrow> (None, m))
               else (None, m)))"

section \<open>The specification's formulations\<close>

text \<open>
  What the specification says a character contributes to the transliteration, and the
  suffix the table gives to offset \<open>v\<close> of a consonant row.
\<close>

definition segment :: "(nat \<rightharpoonup> jsstring) \<Rightarrow> jsstring \<Rightarrow> jsstring" where
  "segment T ch =
     (case T (codePointAt0 ch) of
        Some syl \<Rightarrow> syl
      | None \<Rightarrow> if 0x1200 \<le> codePointAt0 ch \<and> codePointAt0 ch \<le> 0x137F then lit ''?'' else ch)"

definition rowSuffix :: "nat \<Rightarrow> jsstring" where
  "rowSuffix v = (if v = 7 then lit ''wa'' else vowels ! v)"

text \<open>
  The four fields a Latin query is matched against, in their priority order, with the
  label reported for each; the field an entry is matched by is the first that contains
  the lowercased query.
\<close>

definition fieldPriority :: "((entry \<Rightarrow> jsstring option) \<times> jsstring) list" where
  "fieldPriority =
     [(definition_field, lit ''Definition''), (english_definition, lit ''Modern definition''),
      (transliteration, lit ''Transliteration''), (root, lit ''Root'')]"

definition fieldText :: "runtime \<Rightarrow> jsstring option \<Rightarrow> jsstring" where
  "fieldText rt f = toLowerCase rt (case f of None \<Rightarrow> [] | Some s \<Rightarrow> s)"

definition matchedField :: "runtime \<Rightarrow> jsstring \<Rightarrow> entry \<Rightarrow> jsstring option" where
  "matchedField rt q d =
     map_option snd (find (\<lambda>(f, label). sublist q (fieldText rt (f d))) fieldPriority)"

definition wordMatchOf :: "jsstring \<Rightarrow> entry \<Rightarrow> jsstring \<Rightarrow> wordmatch" where
  "wordMatchOf g d label = \<lparr>geez = g, data = d, matchType = label\<rparr>"

definition pairOf :: "'a match_scheme \<Rightarrow> jsstring \<times> entry" where
  "pairOf m = (geez m, data m)"

text \<open>
  The markup of a result, written out from the templates of the source: the item of a
  word match with the links to the verses that hold the word, the item of a verse match
  with the highlighted text, the item of a gematria match; and the sections, where the
  label carries the count of all matches and the items are those of the shown matches.
\<close>

definition summaryMarkup :: "nat \<Rightarrow> jsstring" where
  \<open>summaryMarkup n =
     lit ''<div class="search-summary">'' @ showNat n @ lit '' result'' @
       (if n \<noteq> 1 then lit ''s'' else []) @ lit '' found</div>''\<close>

definition noResultsMarkup :: "jsstring \<Rightarrow> jsstring" where
  \<open>noResultsMarkup query =
     lit ''<div class="search-empty">No results for "'' @ escapeHtml query @ lit ''"</div>''\<close>

definition wordLocations :: "searchindex \<Rightarrow> jsstring \<Rightarrow> jsstring list" where
  "wordLocations index w = map ref (filter (\<lambda>v. w \<in> set (words v)) (index_verses index))"

definition locationLink :: "env \<Rightarrow> jsstring \<Rightarrow> jsstring" where
  \<open>locationLink e loc =
     lit ''<a href="'' @ (if isChapter e then [] else lit ''1_enoch/'') @
       takeWhile (\<lambda>c. c \<noteq> 0x3A) loc @ lit ''.html#v'' @ replaceColon loc @
       lit ''" class="search-verse-link">'' @ loc @ lit ''</a>''\<close>

definition wordItemMarkup :: "env \<Rightarrow> searchindex \<Rightarrow> wordmatch \<Rightarrow> jsstring" where
  \<open>wordItemMarkup e index wm =
     lit ''<div class="search-result-item"><div class="search-result-word">'' @
     lit ''<span class="search-geez">'' @ geez wm @ lit ''</span>'' @
     lit ''<span class="search-trans">'' @ orElse (transliteration (data wm)) [] @ lit ''</span>'' @
     lit ''<span class="search-match-type">'' @ matchType wm @ lit ''</span></div>'' @
     lit ''<div class="search-result-def">'' @
       escapeHtml (orElse (definition_field (data wm)) (orElse (english_definition (data wm)) [])) @
     lit ''</div><div class="search-result-locations">'' @
       concat (map (locationLink e) (wordLocations index (geez wm))) @
     lit ''</div></div>''\<close>

definition verseItemMarkup :: "runtime \<Rightarrow> env \<Rightarrow> jsstring \<Rightarrow> verse \<Rightarrow> jsstring" where
  \<open>verseItemMarkup rt e q vm =
     lit ''<div class="search-result-item"><a href="'' @
       (if isChapter e then [] else lit ''1_enoch/'') @ takeWhile (\<lambda>c. c \<noteq> 0x3A) (ref vm) @
       lit ''.html#v'' @ replaceColon (ref vm) @ lit ''" class="search-verse-ref">'' @ ref vm @
     lit ''</a><div class="search-verse-text">'' @
       highlightMatch rt (escapeHtml (english vm)) q @
     lit ''</div></div>''\<close>

definition gematriaItemMarkup :: "match \<Rightarrow> jsstring" where
  \<open>gematriaItemMarkup gm =
     lit ''<div class="search-result-item"><span class="search-geez">'' @ geez gm @
     lit ''</span> <span class="search-trans">'' @ orElse (transliteration (data gm)) [] @
     lit ''</span> <span class="search-gematria-val">G: '' @
       (case gematria (data gm) of Some n \<Rightarrow> showInt n | None \<Rightarrow> lit ''undefined'') @
     lit ''</span><div class="search-result-def">'' @
       escapeHtml (orElse (definition_field (data gm)) (orElse (english_definition (data gm)) [])) @
     lit ''</div></div>''\<close>

definition wordsMarkup :: "env \<Rightarrow> searchindex \<Rightarrow> nat \<Rightarrow> wordmatch list \<Rightarrow> jsstring" where
  \<open>wordsMarkup e index count shown =
     (if count = 0 then []
      else lit ''<div class="search-section-label">Words ('' @ showNat count @ lit '')</div>'' @
           concat (map (wordItemMarkup e index) shown) @
           (if 50 < count
            then lit ''<div class="search-more">... and '' @ showNat (count - 50) @
                   lit '' more word matches</div>''
            else []))\<close>

definition versesMarkup :: "runtime \<Rightarrow> env \<Rightarrow> jsstring \<Rightarrow> nat \<Rightarrow> verse list \<Rightarrow> jsstring" where
  \<open>versesMarkup rt e q count shown =
     (if count = 0 then []
      else lit ''<div class="search-section-label">Verses ('' @ showNat count @ lit '')</div>'' @
           concat (map (verseItemMarkup rt e q) shown) @
           (if 30 < count
            then lit ''<div class="search-more">... and '' @ showNat (count - 30) @
                   lit '' more verse matches</div>''
            else []))\<close>

definition gematriaMarkup :: "jsstring \<Rightarrow> nat \<Rightarrow> match list \<Rightarrow> jsstring" where
  \<open>gematriaMarkup query count shown =
     (if count = 0 then []
      else lit ''<div class="search-section-label">Gematria = '' @ query @ lit '' ('' @
             showNat count @ lit '')</div>'' @
           concat (map gematriaItemMarkup shown))\<close>

definition tooShortMarkup :: jsstring where
  \<open>tooShortMarkup = lit ''<div class="search-empty">Type at least 2 characters to search</div>''\<close>

definition unavailableMarkup :: jsstring where
  \<open>unavailableMarkup = lit ''<div class="search-empty">Search index not available</div>''\<close>

text \<open>
  The lookup chain of the transliteration display: the stored value of each provider, and
  the first of them that is not empty.
\<close>

definition storedTranslit :: "(jsstring \<rightharpoonup> entry) option \<Rightarrow> jsstring \<Rightarrow> jsstring option" where
  "storedTranslit src w =
     (case src of None \<Rightarrow> None
      | Some m \<Rightarrow> (case m w of None \<Rightarrow> None | Some en \<Rightarrow> transliteration en))"

fun firstNonEmpty :: "jsstring option list \<Rightarrow> jsstring option" where
  "firstNonEmpty [] = None"
| "firstNonEmpty (None # ps) = firstNonEmpty ps"
| "firstNonEmpty (Some s # ps) = (if s \<noteq> [] then Some s else firstNonEmpty ps)"

section \<open>Example data\<close>

text \<open>
  The lexicon of the specification's end-to-end example, the word \<open>U+1230 U+120B U+121D\<close>
  with its entry and the verse 1:1, as a page of either model; a page whose fetches fail;
  a lexicon of 60 entries that all match \<open>peace\<close>; an entry whose transliteration
  holds markup; a verse with an ampersand; an entry of gematria 7; the inherited
  properties with their function objects at the references 0 to 11, and a definitions
  object with one entry behind them.
\<close>

definition exWord :: jsstring where
  "exWord = [0x1230, 0x120B, 0x121D]"

definition exEntry :: entry where
  "exEntry = \<lparr>definition_field = Some (lit ''peace''), english_definition = None,
     transliteration = Some (lit ''selam''), root = Some (lit ''peace''), gematria = Some 135\<rparr>"

definition exVerse :: verse where
  "exVerse = \<lparr>ref = lit ''1:1'', english = lit ''Peace be with you'', words = [exWord]\<rparr>"

definition exIndex :: searchindex where
  "exIndex = \<lparr>index_verses = [exVerse], index_words = [(exWord, exEntry)]\<rparr>"

definition exEnv :: env where
  "exEnv = \<lparr>isChapter = False, fetchSearchIndex = Some [exVerse], wordDataGlobal = None,
     fetchWords = Some [(exWord, exEntry)]\<rparr>"

definition st0 :: state where
  "st0 = \<lparr>searchIndex = None, resultsHtml = []\<rparr>"

definition exPage :: page where
  "exPage = \<lparr>pageIsChapter = False, indexDocument = Some (WithVerses [exVerse]),
     pageWordData = None, wordsDocument = Some [(exWord, exEntry)]\<rparr>"

definition failPage :: page where
  "failPage = \<lparr>pageIsChapter = False, indexDocument = None, pageWordData = None,
     wordsDocument = None\<rparr>"

definition s0 :: session where
  "s0 = \<lparr>storedIndex = None, shownHtml = []\<rparr>"

definition sixtyWords :: lexicon where
  "sixtyWords = map (\<lambda>i. (exWord @ [of_nat (0x1200 + i)], exEntry)) [0..<60]"

definition sixtyIndex :: searchindex where
  "sixtyIndex = \<lparr>index_verses = [exVerse], index_words = sixtyWords\<rparr>"

definition sixtyEnv :: env where
  "sixtyEnv = \<lparr>isChapter = True, fetchSearchIndex = Some [exVerse],
     wordDataGlobal = Some sixtyWords, fetchWords = None\<rparr>"

definition markupEntry :: entry where
  \<open>markupEntry = \<lparr>definition_field = Some (lit ''sun''), english_definition = None,
     transliteration = Some (lit ''<img src=x onerror=alert(1)>''), root = None, gematria = None\<rparr>\<close>

definition markupEnv :: env where
  "markupEnv = \<lparr>isChapter = False, fetchSearchIndex = Some [], wordDataGlobal = None,
     fetchWords = Some [(exWord, markupEntry)]\<rparr>"

definition campVerse :: verse where
  "campVerse = \<lparr>ref = lit ''2:3'', english = lit ''camp & fire'', words = []\<rparr>"

definition campEnv :: env where
  "campEnv = \<lparr>isChapter = True, fetchSearchIndex = Some [campVerse], wordDataGlobal = Some [],
     fetchWords = None\<rparr>"

definition sevenEntry :: entry where
  "sevenEntry = \<lparr>definition_field = Some (lit ''week''), english_definition = None,
     transliteration = None, root = None, gematria = Some 7\<rparr>"

definition sevenEnv :: env where
  "sevenEnv = \<lparr>isChapter = False, fetchSearchIndex = Some [], wordDataGlobal = None,
     fetchWords = Some [(exWord, sevenEntry)]\<rparr>"



section \<open>Properties of the transliteration engine\<close>

lemma buildRow_apply:
  "buildRow T (base, cons) k =
     (if base \<le> k \<and> k < base + 8 then Some (cons @ rowSuffix (k - base)) else T k)"
proof -
  have u: "[0..<7] = [0, 1, 2, 3, 4, 5, 6::nat]"
    by (simp add: upt_rec)
  show ?thesis
    unfolding buildRow_def u
    by (auto simp: rowSuffix_def vowels_def)
qed

lemma foldl_buildRow_apply:
  "foldl buildRow T rs k =
     (case find (\<lambda>(b, c). b \<le> k \<and> k < b + 8) (rev rs) of
        Some (b, c) \<Rightarrow> Some (c @ rowSuffix (k - b))
      | None \<Rightarrow> T k)"
proof (induction rs rule: rev_induct)
  case Nil
  show ?case by simp
next
  case (snoc r rs)
  obtain b c where r: "r = (b, c)" by (cases r)
  show ?case
    using snoc.IH by (simp add: r buildRow_apply)
qed

lemma find_SomeD: "find P xs = Some x \<Longrightarrow> x \<in> set xs \<and> P x"
  by (induction xs) (auto split: if_splits)

lemma rows_aligned: "\<forall>r \<in> set rows. 8 dvd fst r"
  by (simp add: rows_def)

lemma rows_distinct: "distinct (map fst rows)"
  by (simp add: rows_def)

lemma rows_cons_nonempty: "\<forall>r \<in> set rows. snd r \<noteq> []"
  by (simp add: rows_def lit_def)

lemma aligned_base_unique:
  fixes b b' k :: nat
  assumes "8 dvd b" "8 dvd b'" "b \<le> k" "k < b + 8" "b' \<le> k" "k < b' + 8"
  shows "b = b'"
  using assms by presburger

lemma TRANSLIT_BASES_iff:
  "TRANSLIT_BASES k = Some s \<longleftrightarrow>
     (\<exists>(base, cons) \<in> set rows. \<exists>v<8. k = base + v \<and> s = cons @ rowSuffix v)"
  (is "?L \<longleftrightarrow> ?R")
proof
  assume ?L
  then obtain b c where f: "find (\<lambda>(b, c). b \<le> k \<and> k < b + 8) (rev rows) = Some (b, c)"
    and s: "s = c @ rowSuffix (k - b)"
    by (auto simp: TRANSLIT_BASES_def buildTranslitTable_def foldl_buildRow_apply
        split: option.splits)
  from find_SomeD [OF f] have "(b, c) \<in> set rows" "b \<le> k" "k < b + 8"
    by auto
  with s show ?R
    by (intro bexI [of _ "(b, c)"]) (auto intro!: exI [of _ "k - b"])
next
  assume ?R
  then obtain b c v where m: "(b, c) \<in> set rows" and v: "v < 8" and k: "k = b + v"
    and s: "s = c @ rowSuffix v"
    by auto
  have "\<exists>x \<in> set (rev rows). (\<lambda>(b, c). b \<le> k \<and> k < b + 8) x"
    using m v k by (intro bexI [of _ "(b, c)"]) auto
  then obtain b' c' where f: "find (\<lambda>(b, c). b \<le> k \<and> k < b + 8) (rev rows) = Some (b', c')"
    by (cases "find (\<lambda>(b, c). b \<le> k \<and> k < b + 8) (rev rows)") (auto simp: find_None_iff)
  from find_SomeD [OF this] have m': "(b', c') \<in> set rows" and r: "b' \<le> k" "k < b' + 8"
    by auto
  have "b' = b"
    using rows_aligned m m' r v k aligned_base_unique [of b' b k] by fastforce
  moreover from this have "c' = c"
    using rows_distinct m m' by (meson eq_key_imp_eq_value)
  ultimately show ?L
    using f s k v by (simp add: TRANSLIT_BASES_def buildTranslitTable_def foldl_buildRow_apply)
qed

lemma TRANSLIT_BASES_nonempty: "TRANSLIT_BASES k = Some s \<Longrightarrow> s \<noteq> []"
  using rows_cons_nonempty by (fastforce simp: TRANSLIT_BASES_iff)

lemma TRANSLIT_BASES_find:
  "TRANSLIT_BASES k =
     (case find (\<lambda>(b, c). b \<le> k \<and> k < b + 8) (rev rows) of
        Some (b, c) \<Rightarrow> Some (c @ rowSuffix (k - b))
      | None \<Rightarrow> None)"
  by (simp add: TRANSLIT_BASES_def buildTranslitTable_def foldl_buildRow_apply)

lemma translitStep_segment:
  assumes "\<And>k s. T k = Some s \<Longrightarrow> s \<noteq> []"
  shows "translitStep T acc ch = acc @ segment T ch"
  using assms by (auto simp: translitStep_def segment_def Let_def split: option.splits)

lemma foldl_translitStep:
  assumes "\<And>k s. T k = Some s \<Longrightarrow> s \<noteq> []"
  shows "foldl (translitStep T) acc cs = acc @ concat (map (segment T) cs)"
proof (induction cs arbitrary: acc)
  case Nil
  show ?case by simp
next
  case (Cons c cs)
  have "foldl (translitStep T) acc (c # cs) = foldl (translitStep T) (translitStep T acc c) cs"
    by simp
  also have "\<dots> = translitStep T acc c @ concat (map (segment T) cs)"
    by (rule Cons.IH)
  also have "\<dots> = acc @ concat (map (segment T) (c # cs))"
    by (simp add: translitStep_segment [OF assms])
  finally show ?case .
qed

lemma concat_chars: "concat (chars w) = w"
  by (induction w rule: chars.induct) auto

lemma transliterate_segments:
  "transliterate w = concat (map (segment TRANSLIT_BASES) (chars w))"
  unfolding transliterate_def
  using foldl_translitStep [of TRANSLIT_BASES "[]" "chars w"] TRANSLIT_BASES_nonempty
  by simp

text \<open>
  C1. \<open>transliterate\<close> handles the characters of its input one by one and in order:
  the result is the concatenation of one segment per character, where a character whose
  code point is a key of the table gives the table's syllable, an other character of the
  range 0x1200 to 0x137F gives \<open>?\<close>, and any other character gives itself; the
  characters are a partition of the input. The table has exactly the keys \<open>base + v\<close>
  of the consonant rows for \<open>v\<close> from 0 to 7, with the consonant followed by the
  suffixes a, u, i, a, e, nothing, o and wa. The function has no failing branch: it
  returns a string for every input.
\<close>

theorem transliterate_per_character:
  "transliterate w = concat (map (segment TRANSLIT_BASES) (chars w))
   \<and> concat (chars w) = w
   \<and> (TRANSLIT_BASES k = Some s \<longleftrightarrow>
        (\<exists>(base, cons) \<in> set rows. \<exists>v<8. k = base + v \<and> s = cons @ rowSuffix v))
   \<and> map rowSuffix [0..<8] =
       [lit ''a'', lit ''u'', lit ''i'', lit ''a'', lit ''e'', [], lit ''o'', lit ''wa'']"
proof -
  have "[0..<8] = [0, 1, 2, 3, 4, 5, 6, 7 :: nat]"
    by (simp add: upt_rec)
  then have "map rowSuffix [0..<8] =
       [lit ''a'', lit ''u'', lit ''i'', lit ''a'', lit ''e'', [], lit ''o'', lit ''wa'']"
    by (simp add: rowSuffix_def vowels_def)
  then show ?thesis
    using transliterate_segments [of w] concat_chars [of w] TRANSLIT_BASES_iff [of k s]
    by simp
qed

theorem transliterate_per_character_witness:
  "transliterate [0x1200, 0x1205, 0x1350, 0x20] = lit ''hah? ''
   \<and> TRANSLIT_BASES 0x1205 = Some (lit ''h'')"
proof -
  have "(0x1200, lit ''h'') \<in> set rows"
    by (simp add: rows_def)
  then have "\<exists>(base, cons) \<in> set rows. \<exists>v<8. (0x1205 :: nat) = base + v \<and> lit ''h'' = cons @ rowSuffix v"
    by (intro bexI [of _ "(0x1200, lit ''h'')"]) (auto intro!: exI [of _ 5] simp: rowSuffix_def vowels_def)
  then have t: "TRANSLIT_BASES 0x1205 = Some (lit ''h'')"
    using transliterate_per_character [of "[]" "0x1205" "lit ''h''"] by blast
  have "transliterate [0x1200, 0x1205, 0x1350, 0x20] =
      concat (map (segment TRANSLIT_BASES) (chars [0x1200, 0x1205, 0x1350, 0x20]))"
    using transliterate_per_character [of "[0x1200, 0x1205, 0x1350, 0x20]" 0 "[]"] by blast
  also have "\<dots> = lit ''hah? ''"
    by (simp add: segment_def lit_def TRANSLIT_BASES_find rows_def
      isHighSurrogate_def isLowSurrogate_def rowSuffix_def vowels_def)
  finally show ?thesis using t by simp
qed

section \<open>Properties of the search passes\<close>

lemma startsWith_prefix: "startsWith s q \<longleftrightarrow> prefix q s"
  by (induction s q rule: startsWith.induct) auto

lemma includesStr_sublist: "includesStr s q \<longleftrightarrow> sublist q s"
  by (induction s) (auto simp: startsWith_prefix sublist_Cons_right)

lemma orElse_empty: "orElse f [] = (case f of None \<Rightarrow> [] | Some s \<Rightarrow> s)"
  by (cases f) auto

lemma foldl_push:
  "foldl (\<lambda>acc x. if P x then acc @ [f x] else acc) acc xs = acc @ map f (filter P xs)"
  by (induction xs arbitrary: acc) auto

lemma foldl_push_pair:
  "foldl (\<lambda>acc e. case e of (g, d) \<Rightarrow> if P g d then acc @ [f g d] else acc) acc xs =
     acc @ map (\<lambda>(g, d). f g d) (filter (\<lambda>(g, d). P g d) xs)"
  by (induction xs arbitrary: acc) auto

lemma matchedField_cases:
  "matchedField rt q d =
     (if sublist q (fieldText rt (definition_field d)) then Some (lit ''Definition'')
      else if sublist q (fieldText rt (english_definition d)) then Some (lit ''Modern definition'')
      else if sublist q (fieldText rt (transliteration d)) then Some (lit ''Transliteration'')
      else if sublist q (fieldText rt (root d)) then Some (lit ''Root'')
      else None)"
  by (simp add: matchedField_def fieldPriority_def)

lemma wordStep_latin:
  assumes "\<not> isGeezQuery query"
  shows "wordStep rt query acc (g, d) =
     acc @ (case matchedField rt (toLowerCase rt query) d of
              None \<Rightarrow> [] | Some label \<Rightarrow> [wordMatchOf g d label])"
  using assms
  by (simp add: wordStep_def Let_def matchedField_cases includesStr_sublist orElse_empty
      fieldText_def wordMatchOf_def)

lemma wordStep_geez:
  assumes "isGeezQuery query"
  shows "wordStep rt query acc (g, d) =
     acc @ (if sublist query g then [wordMatchOf g d (lit ''Ge'ez match'')] else [])"
  using assms
  by (simp add: wordStep_def Let_def includesStr_sublist wordMatchOf_def)

lemma foldl_wordStep_latin:
  assumes "\<not> isGeezQuery query"
  shows "foldl (wordStep rt query) acc es =
     acc @ List.map_filter (\<lambda>(g, d). map_option (wordMatchOf g d)
                              (matchedField rt (toLowerCase rt query) d)) es"
proof (induction es arbitrary: acc)
  case Nil
  show ?case by simp
next
  case (Cons x es)
  obtain g d where x: "x = (g, d)" by (cases x)
  have "foldl (wordStep rt query) acc (x # es) =
          foldl (wordStep rt query) (wordStep rt query acc (g, d)) es"
    by (simp add: x)
  also have "\<dots> = wordStep rt query acc (g, d) @
      List.map_filter (\<lambda>(g, d). map_option (wordMatchOf g d)
                              (matchedField rt (toLowerCase rt query) d)) es"
    by (rule Cons.IH)
  finally show ?case
    by (simp add: x wordStep_latin [OF assms] split: option.splits)
qed

lemma foldl_wordStep_geez:
  assumes "isGeezQuery query"
  shows "foldl (wordStep rt query) acc es =
     acc @ map (\<lambda>(g, d). wordMatchOf g d (lit ''Ge'ez match''))
             (filter (\<lambda>(g, d). sublist query g) es)"
proof (induction es arbitrary: acc)
  case Nil
  show ?case by simp
next
  case (Cons x es)
  obtain g d where x: "x = (g, d)" by (cases x)
  have "foldl (wordStep rt query) acc (x # es) =
          foldl (wordStep rt query) (wordStep rt query acc (g, d)) es"
    by (simp add: x)
  also have "\<dots> = wordStep rt query acc (g, d) @
      map (\<lambda>(g, d). wordMatchOf g d (lit ''Ge'ez match''))
             (filter (\<lambda>(g, d). sublist query g) es)"
    by (rule Cons.IH)
  finally show ?case
    by (simp add: x wordStep_geez [OF assms])
qed

lemma versePass_filter:
  "versePass rt index query =
     (if isGeezQuery query then []
      else filter (\<lambda>v. sublist (toLowerCase rt query) (toLowerCase rt (english v)))
             (index_verses index))"
  using foldl_push [of "\<lambda>v. includesStr (toLowerCase rt (english v)) (toLowerCase rt query)"
      "\<lambda>v. v" "[]" "index_verses index"]
  by (simp add: versePass_def includesStr_sublist)

lemma gematriaPass_filter:
  "gematriaPass index query =
     (if allDigits query
      then map (\<lambda>(g, d). \<lparr>geez = g, data = d\<rparr>)
             (filter (\<lambda>(g, d). gematria d = Some (parseInt query)) (index_words index))
      else [])"
  using foldl_push_pair [of "\<lambda>g d. gematria d = Some (parseInt query)"
      "\<lambda>g d. \<lparr>geez = g, data = d\<rparr>" "[]" "index_words index"]
  by (simp add: gematriaPass_def Let_def)

lemma search_loaded:
  assumes "2 \<le> length query" "fst (loadSearchIndex e st) = Some index"
  shows "fst (search rt e st query) =
     Matches index (wordPass rt index query) (versePass rt index query) (gematriaPass index query)"
  using assms by (auto simp: search_def split: prod.splits option.splits)

lemma search_short: "length query < 2 \<Longrightarrow> search rt e st query = (TooShort, st)"
  by (simp add: search_def)

lemma load_ex: "fst (loadSearchIndex exEnv st0) = Some exIndex"
  by (simp add: loadSearchIndex_def exEnv_def st0_def exIndex_def Let_def)

lemma pairOf_latin:
  "map pairOf (List.map_filter (\<lambda>(g, d). map_option (wordMatchOf g d) (F d)) es) =
     filter (\<lambda>(g, d). F d \<noteq> None) es"
  by (induction es) (auto simp: pairOf_def wordMatchOf_def split: option.splits)

text \<open>
  C2. For a query of at least two code units without an Ethiopic character, on a loaded
  index, the word matches are the entries of the lexicon, in its order, for which the
  lowercased query is a substring of the lowercased definition, english\_definition,
  transliteration or root (a missing field counts as empty), each with the label of the
  first of these fields that matches; so an entry whose definition contains the query
  is reported as a definition match whatever its root holds.
\<close>

theorem word_match_fields:
  assumes "2 \<le> length query" and "\<not> isGeezQuery query"
    and "fst (loadSearchIndex e st) = Some index"
  shows "wordMatches (fst (search rt e st query)) =
           List.map_filter (\<lambda>(g, d). map_option (wordMatchOf g d)
                              (matchedField rt (toLowerCase rt query) d)) (index_words index)
         \<and> ((g, d) \<in> set (map pairOf (wordMatches (fst (search rt e st query)))) \<longleftrightarrow>
              (g, d) \<in> set (index_words index) \<and>
              (sublist (toLowerCase rt query) (fieldText rt (definition_field d)) \<or>
               sublist (toLowerCase rt query) (fieldText rt (english_definition d)) \<or>
               sublist (toLowerCase rt query) (fieldText rt (transliteration d)) \<or>
               sublist (toLowerCase rt query) (fieldText rt (root d))))
         \<and> matchedField rt (toLowerCase rt query) d =
             (if sublist (toLowerCase rt query) (fieldText rt (definition_field d))
              then Some (lit ''Definition'')
              else if sublist (toLowerCase rt query) (fieldText rt (english_definition d))
              then Some (lit ''Modern definition'')
              else if sublist (toLowerCase rt query) (fieldText rt (transliteration d))
              then Some (lit ''Transliteration'')
              else if sublist (toLowerCase rt query) (fieldText rt (root d))
              then Some (lit ''Root'')
              else None)"
proof -
  let ?q = "toLowerCase rt query"
  have w: "wordMatches (fst (search rt e st query)) =
      List.map_filter (\<lambda>(g, d). map_option (wordMatchOf g d) (matchedField rt ?q d))
        (index_words index)"
    using foldl_wordStep_latin [OF assms(2), of rt "[]" "index_words index"]
    by (simp add: search_loaded [OF assms(1,3)] wordPass_def)
  have "map pairOf (wordMatches (fst (search rt e st query))) =
      filter (\<lambda>(g, d). matchedField rt ?q d \<noteq> None) (index_words index)"
    by (simp only: w pairOf_latin)
  then have m: "(g, d) \<in> set (map pairOf (wordMatches (fst (search rt e st query)))) \<longleftrightarrow>
      (g, d) \<in> set (index_words index) \<and> matchedField rt ?q d \<noteq> None"
    by simp
  have n: "matchedField rt ?q d \<noteq> None \<longleftrightarrow>
      sublist ?q (fieldText rt (definition_field d)) \<or>
      sublist ?q (fieldText rt (english_definition d)) \<or>
      sublist ?q (fieldText rt (transliteration d)) \<or>
      sublist ?q (fieldText rt (root d))"
    by (simp add: matchedField_cases)
  have m': "(g, d) \<in> set (map pairOf (wordMatches (fst (search rt e st query)))) \<longleftrightarrow>
      (g, d) \<in> set (index_words index) \<and>
      (sublist ?q (fieldText rt (definition_field d)) \<or>
       sublist ?q (fieldText rt (english_definition d)) \<or>
       sublist ?q (fieldText rt (transliteration d)) \<or>
       sublist ?q (fieldText rt (root d)))"
    using m n by simp
  from w m' matchedField_cases [of rt ?q d] show ?thesis
    by (intro conjI)
qed

theorem word_match_fields_witness:
  "wordMatches (fst (search asciiRuntime exEnv st0 (lit ''PEACE''))) =
     [wordMatchOf exWord exEntry (lit ''Definition'')]"
proof -
  have h: "2 \<le> length (lit ''PEACE'')" "\<not> isGeezQuery (lit ''PEACE'')"
    "fst (loadSearchIndex exEnv st0) = Some exIndex"
    by (simp_all add: lit_def isGeezQuery_def load_ex)
  have m: "matchedField asciiRuntime (toLowerCase asciiRuntime (lit ''PEACE'')) exEntry =
      Some (lit ''Definition'')"
    by (simp add: matchedField_cases fieldText_def exEntry_def asciiRuntime_def asciiLower_def
        lit_def includesStr_sublist [symmetric])
  show ?thesis
    using word_match_fields [OF h, where rt = asciiRuntime and g = exWord and d = exEntry] m
    by (simp add: exIndex_def)
qed

lemma surrogate_not_ethiopic:
  "isHighSurrogate c \<or> isLowSurrogate c \<Longrightarrow> \<not> (0x1200 \<le> c \<and> c \<le> 0x137F)"
  by (auto simp: isHighSurrogate_def isLowSurrogate_def word_le_nat_alt)

lemma unat_ethiopic: "(0x1200 \<le> unat c \<and> unat c \<le> 0x137F) \<longleftrightarrow> (0x1200 \<le> c \<and> c \<le> (0x137F :: unit16))"
  by (simp add: word_le_nat_alt)

lemma isGeezQuery_chars:
  "isGeezQuery query \<longleftrightarrow>
     (\<exists>ch \<in> set (chars query). 0x1200 \<le> codePointAt0 ch \<and> codePointAt0 ch \<le> 0x137F)"
proof -
  have "list_ex (\<lambda>c. 0x1200 \<le> c \<and> c \<le> 0x137F) query \<longleftrightarrow>
     (\<exists>ch \<in> set (chars query). 0x1200 \<le> codePointAt0 ch \<and> codePointAt0 ch \<le> 0x137F)"
  proof (induction query rule: chars.induct)
    case 1
    show ?case by simp
  next
    case (2 c)
    show ?case by (simp add: unat_ethiopic)
  next
    case (3 c d cs)
    show ?case
    proof (cases "isHighSurrogate c \<and> isLowSurrogate d")
      case True
      then show ?thesis
        using 3 surrogate_not_ethiopic [of c] surrogate_not_ethiopic [of d] by auto
    next
      case False
      then show ?thesis
        using 3 by (auto simp: unat_ethiopic)
    qed
  qed
  then show ?thesis by (simp add: isGeezQuery_def)
qed

text \<open>
  C7. A query is script-native exactly when one of its characters has a code point from
  0x1200 to 0x137F. A script-native query has no verse match and matches the lexicon keys
  that contain the query itself; any other query matches the verses whose lowercased
  English text contains the lowercased query.
\<close>

theorem script_classification:
  assumes "2 \<le> length query" and "fst (loadSearchIndex e st) = Some index"
  shows "(isGeezQuery query \<longleftrightarrow>
            (\<exists>ch \<in> set (chars query). 0x1200 \<le> codePointAt0 ch \<and> codePointAt0 ch \<le> 0x137F))
         \<and> (isGeezQuery query \<longrightarrow>
              verseMatches (fst (search rt e st query)) = [] \<and>
              wordMatches (fst (search rt e st query)) =
                map (\<lambda>(g, d). wordMatchOf g d (lit ''Ge'ez match''))
                  (filter (\<lambda>(g, d). sublist query g) (index_words index)))
         \<and> (\<not> isGeezQuery query \<longrightarrow>
              verseMatches (fst (search rt e st query)) =
                filter (\<lambda>v. sublist (toLowerCase rt query) (toLowerCase rt (english v)))
                  (index_verses index))"
proof -
  have g: "isGeezQuery query \<Longrightarrow> wordPass rt index query =
      map (\<lambda>(g, d). wordMatchOf g d (lit ''Ge'ez match''))
        (filter (\<lambda>(g, d). sublist query g) (index_words index))"
    using foldl_wordStep_geez [of query rt "[]" "index_words index"]
    by (simp add: wordPass_def)
  have c1: "isGeezQuery query \<longleftrightarrow>
      (\<exists>ch \<in> set (chars query). 0x1200 \<le> codePointAt0 ch \<and> codePointAt0 ch \<le> 0x137F)"
    by (rule isGeezQuery_chars)
  have c2: "isGeezQuery query \<longrightarrow>
      verseMatches (fst (search rt e st query)) = [] \<and>
      wordMatches (fst (search rt e st query)) =
        map (\<lambda>(g, d). wordMatchOf g d (lit ''Ge'ez match''))
          (filter (\<lambda>(g, d). sublist query g) (index_words index))"
    using g by (simp add: search_loaded [OF assms] versePass_filter)
  have c3: "\<not> isGeezQuery query \<longrightarrow>
      verseMatches (fst (search rt e st query)) =
        filter (\<lambda>v. sublist (toLowerCase rt query) (toLowerCase rt (english v)))
          (index_verses index)"
    by (simp add: search_loaded [OF assms] versePass_filter)
  from c1 c2 c3 show ?thesis by (intro conjI)
qed

theorem script_classification_witness:
  "isGeezQuery [0x1230, 0x120B]
   \<and> verseMatches (fst (search asciiRuntime exEnv st0 [0x1230, 0x120B])) = []
   \<and> wordMatches (fst (search asciiRuntime exEnv st0 [0x1230, 0x120B])) =
       [wordMatchOf exWord exEntry (lit ''Ge'ez match'')]
   \<and> \<not> isGeezQuery (lit ''PEACE'')
   \<and> verseMatches (fst (search asciiRuntime exEnv st0 (lit ''PEACE''))) = [exVerse]"
proof -
  have l: "fst (loadSearchIndex exEnv st0) = Some exIndex"
    by (rule load_ex)
  have g: "2 \<le> length [0x1230, 0x120B :: unit16]" "isGeezQuery [0x1230, 0x120B]"
    by (simp_all add: isGeezQuery_def)
  have p: "2 \<le> length (lit ''PEACE'')" "\<not> isGeezQuery (lit ''PEACE'')"
    by (simp_all add: lit_def isGeezQuery_def)
  have s1: "sublist [0x1230, 0x120B] exWord"
    by (simp add: includesStr_sublist [symmetric] exWord_def)
  have s2: "sublist (toLowerCase asciiRuntime (lit ''PEACE''))
      (toLowerCase asciiRuntime (english exVerse))"
    by (simp add: includesStr_sublist [symmetric] exVerse_def asciiRuntime_def asciiLower_def lit_def)
  show ?thesis
    using script_classification [OF g(1) l, of asciiRuntime]
      script_classification [OF p(1) l, of asciiRuntime] g(2) p(2) s1 s2
    by (simp add: exIndex_def)
qed

declare showNat.simps [simp del]

lemma unat_digit: "k < 10 \<Longrightarrow> unat (of_nat (48 + k) :: unit16) = 48 + k"
  by (simp add: unat_of_nat del: of_nat_add)

lemma isDigit_digit: "k < 10 \<Longrightarrow> isDigit (of_nat (48 + k))"
  using unat_digit [of k] by (simp add: isDigit_def word_le_nat_alt del: of_nat_add)

lemma allDigits_showNat: "allDigits (showNat n)"
proof (induction n rule: showNat.induct)
  case (1 n)
  show ?case
  proof (cases "n < 10")
    case True
    then show ?thesis
      by (subst showNat.simps) (simp add: allDigits_def isDigit_digit del: of_nat_add)
  next
    case False
    then show ?thesis
      using 1 by (subst showNat.simps) (simp add: allDigits_def isDigit_digit del: of_nat_add)
  qed
qed

lemma parseInt_snoc: "parseInt (s @ [c]) = 10 * parseInt s + int (unat c - 48)"
  by (simp add: parseInt_def)

lemma parseInt_showNat: "parseInt (showNat n) = int n"
proof (induction n rule: showNat.induct)
  case (1 n)
  show ?case
  proof (cases "n < 10")
    case True
    then show ?thesis
      by (subst showNat.simps) (simp add: parseInt_def unat_digit del: of_nat_add)
  next
    case False
    then have "parseInt (showNat n) = 10 * int (n div 10) + int (n mod 10)"
      using 1 by (subst showNat.simps) (simp add: parseInt_snoc unat_digit del: of_nat_add)
    then show ?thesis by presburger
  qed
qed

lemma length_showNat: "10 \<le> n \<Longrightarrow> 2 \<le> length (showNat n)"
proof -
  assume "10 \<le> n"
  then have "showNat n = showNat (n div 10) @ [of_nat (48 + n mod 10)]"
    by (subst showNat.simps) simp
  moreover have "showNat (n div 10) \<noteq> []"
    using allDigits_showNat [of "n div 10"] by (simp add: allDigits_def)
  ultimately show ?thesis
    by (cases "showNat (n div 10)") simp_all
qed

lemma not_allDigits_x: "\<not> allDigits (s @ lit ''x'')"
  by (simp add: allDigits_def isDigit_def lit_def)

lemma showInt_nat: "0 \<le> i \<Longrightarrow> showInt i = showNat (nat i)"
  by (simp add: showInt_def)

text \<open>
  C3, as the code has it. A query of one digit is answered by the hint for short queries
  before any pass runs, so the entry of gematria 7 is not found by the query \<open>7\<close>.
\<close>

theorem single_digit_gematria_counterexample:
  "fst (loadSearchIndex sevenEnv st0) =
     Some \<lparr>index_verses = [], index_words = [(exWord, sevenEntry)]\<rparr>
   \<and> gematria sevenEntry = Some 7
   \<and> allDigits (showInt 7)
   \<and> \<lparr>geez = exWord, data = sevenEntry\<rparr> \<notin>
       set (gematriaMatches (fst (search asciiRuntime sevenEnv st0 (showInt 7))))"
  by (simp add: loadSearchIndex_def sevenEnv_def st0_def sevenEntry_def showInt_def
      showNat.simps allDigits_def isDigit_def search_def Let_def)

text \<open>
  C3, amended. On a loaded index, for a query of at least two code units (and at most 15,
  where the parsed number is exact), the gematria matches are the entries whose gematria
  equals the number the query denotes when the query consists of decimal digits, and
  none otherwise. For every entry of gematria \<open>n\<close> from 10 on, the decimal string of
  \<open>n\<close> finds the entry, and that string followed by \<open>x\<close> finds no gematria match.
\<close>

theorem gematria_exact:
  assumes "fst (loadSearchIndex e st) = Some index"
  shows "(2 \<le> length query \<and> length query \<le> 15 \<longrightarrow>
            gematriaMatches (fst (search rt e st query)) =
              (if allDigits query
               then map (\<lambda>(g, d). \<lparr>geez = g, data = d\<rparr>)
                      (filter (\<lambda>(g, d). gematria d = Some (parseInt query)) (index_words index))
               else []))
         \<and> (10 \<le> n \<and> n < 2 ^ 53 \<and> (g, d) \<in> set (index_words index) \<and> gematria d = Some n \<longrightarrow>
              \<lparr>geez = g, data = d\<rparr> \<in> set (gematriaMatches (fst (search rt e st (showInt n)))) \<and>
              gematriaMatches (fst (search rt e st (showInt n @ lit ''x''))) = [])"
proof -
  have p1: "2 \<le> length query \<and> length query \<le> 15 \<longrightarrow>
            gematriaMatches (fst (search rt e st query)) =
              (if allDigits query
               then map (\<lambda>(g, d). \<lparr>geez = g, data = d\<rparr>)
                      (filter (\<lambda>(g, d). gematria d = Some (parseInt query)) (index_words index))
               else [])"
    using assms by (simp add: search_loaded gematriaPass_filter)
  have p2: "\<lparr>geez = g, data = d\<rparr> \<in> set (gematriaMatches (fst (search rt e st (showInt n))))
      \<and> gematriaMatches (fst (search rt e st (showInt n @ lit ''x''))) = []"
    if n: "10 \<le> n" and m: "(g, d) \<in> set (index_words index)" and gd: "gematria d = Some n"
  proof -
    have s: "showInt n = showNat (nat n)"
      using n by (simp add: showInt_nat)
    have l: "2 \<le> length (showInt n)"
      using n length_showNat [of "nat n"] by (simp add: s)
    have l': "2 \<le> length (showInt n @ lit ''x'')"
      using l by simp
    have v: "parseInt (showInt n) = n"
      using n by (simp add: s parseInt_showNat)
    have "\<lparr>geez = g, data = d\<rparr> \<in>
        set (map (\<lambda>(g, d). \<lparr>geez = g, data = d\<rparr>)
               (filter (\<lambda>(g, d). gematria d = Some n) (index_words index)))"
      using m gd by force
    moreover have a: "allDigits (showInt n)"
      by (simp add: s allDigits_showNat)
    ultimately have "\<lparr>geez = g, data = d\<rparr> \<in> set (gematriaMatches (fst (search rt e st (showInt n))))"
      by (simp add: search_loaded [OF l assms] gematriaPass_filter v)
    moreover have "gematriaMatches (fst (search rt e st (showInt n @ lit ''x''))) = []"
      by (simp add: search_loaded [OF l' assms] gematriaPass_filter not_allDigits_x)
    ultimately show ?thesis by simp
  qed
  from p1 p2 show ?thesis by blast
qed

theorem gematria_exact_witness:
  "\<lparr>geez = exWord, data = exEntry\<rparr> \<in>
      set (gematriaMatches (fst (search asciiRuntime exEnv st0 (lit ''135''))))
   \<and> gematriaMatches (fst (search asciiRuntime exEnv st0 (lit ''135x''))) = []
   \<and> gematriaMatches (fst (search asciiRuntime exEnv st0 (lit ''peace''))) = []"
proof -
  have l: "fst (loadSearchIndex exEnv st0) = Some exIndex"
    by (rule load_ex)
  have s: "showInt 135 = lit ''135''"
    by (simp add: showInt_def showNat.simps lit_def)
  have h: "(10 :: int) \<le> 135 \<and> (135 :: int) < 2 ^ 53 \<and> (exWord, exEntry) \<in> set (index_words exIndex)
      \<and> gematria exEntry = Some 135"
    by (simp add: exIndex_def exEntry_def)
  have q: "2 \<le> length (lit ''peace'') \<and> length (lit ''peace'') \<le> 15" "\<not> allDigits (lit ''peace'')"
    by (simp_all add: lit_def allDigits_def isDigit_def)
  show ?thesis
    using gematria_exact [OF l, of "lit ''peace''" asciiRuntime 135 exWord exEntry] h q
    by (simp add: s lit_def)
qed

section \<open>Properties of the result markup\<close>

lemma foldl_append_each: "foldl (\<lambda>h x. h @ f x) h xs = h @ concat (map f xs)"
  by (induction xs arbitrary: h) auto

lemma lit_append: "lit (a @ b) = lit a @ lit b"
  by (simp add: lit_def)

lemma foldl_locations:
  "foldl (\<lambda>locations v. if P v then locations @ [ref v] else locations) acc vs =
     acc @ map ref (filter P vs)"
  by (induction vs arbitrary: acc) auto

lemma wordItem_markup: "wordItem e index html wm = html @ wordItemMarkup e index wm"
proof -
  have l: "foldl (\<lambda>locations v. if geez wm \<in> set (words v) then locations @ [ref v]
                                  else locations) [] (index_verses index) =
      wordLocations index (geez wm)"
    by (simp add: foldl_locations wordLocations_def)
  have f: "foldl (\<lambda>h loc. h @ lit ''<a href=\"'' @ chapterBase e @ splitColon0 loc @
                     lit ''.html#v'' @ replaceColon loc @
                     lit ''\" class=\"search-verse-link\">'' @ loc @ lit ''</a>'') h locs =
      h @ concat (map (locationLink e) locs)" for h locs
    using foldl_append_each [of "locationLink e" h locs]
    by (simp add: locationLink_def chapterBase_def splitColon0_def)
  show ?thesis
    unfolding wordItem_def Let_def l f
    by (simp add: wordItemMarkup_def lit_append [symmetric] del: append_assoc)
qed

lemma verseItem_markup: "verseItem rt e q html vm = html @ verseItemMarkup rt e q vm"
  by (simp add: verseItem_def verseItemMarkup_def Let_def chapterBase_def splitColon0_def lit_def)

lemma gematriaItem_markup: "gematriaItem html gm = html @ gematriaItemMarkup gm"
  by (simp add: gematriaItem_def gematriaItemMarkup_def Let_def lit_def)

lemma foldl_items:
  assumes "\<And>h x. item h x = h @ markup x"
  shows "foldl item html xs = html @ concat (map markup xs)"
proof (induction xs arbitrary: html)
  case Nil
  show ?case by simp
next
  case (Cons x xs)
  have "foldl item html (x # xs) = foldl item (item html x) xs" by simp
  also have "\<dots> = item html x @ concat (map markup xs)" by (rule Cons.IH)
  also have "\<dots> = (html @ markup x) @ concat (map markup xs)"
    by (simp only: assms [of html x])
  finally show ?case by simp
qed

lemma wordSection_markup:
  "wordSection e index wms html = html @ wordsMarkup e index (length wms) (take 50 wms)"
  using foldl_items [of "wordItem e index" "wordItemMarkup e index", OF wordItem_markup]
  by (simp add: wordSection_def wordsMarkup_def Let_def)

lemma verseSection_markup:
  "verseSection rt e q vms html = html @ versesMarkup rt e q (length vms) (take 30 vms)"
  using foldl_items [of "verseItem rt e q" "verseItemMarkup rt e q", OF verseItem_markup]
  by (simp add: verseSection_def versesMarkup_def Let_def)

lemma gematriaSection_markup:
  "gematriaSection query gms html = html @ gematriaMarkup query (length gms) gms"
  using foldl_items [of gematriaItem gematriaItemMarkup, OF gematriaItem_markup]
  by (simp add: gematriaSection_def gematriaMarkup_def)

lemma buildHtml_markup:
  "buildHtml rt e query index wms vms gms =
     (if wms = [] \<and> vms = [] \<and> gms = [] then noResultsMarkup query
      else summaryMarkup (length wms + length vms + length gms) @
           wordsMarkup e index (length wms) (take 50 wms) @
           versesMarkup rt e (toLowerCase rt query) (length vms) (take 30 vms) @
           gematriaMarkup query (length gms) gms)"
  by (simp add: buildHtml_def Let_def wordSection_markup verseSection_markup
      gematriaSection_markup noResultsMarkup_def summaryMarkup_def)

lemma pairOf_geez:
  "map pairOf (map (\<lambda>(g, d). wordMatchOf g d l) (filter P es)) = filter P es"
  by (induction es) (auto simp: pairOf_def wordMatchOf_def)

lemma pairOf_gematria:
  "map pairOf (map (\<lambda>(g, d). \<lparr>geez = g, data = d\<rparr>) (filter P es)) = filter P es"
  by (induction es) (auto simp: pairOf_def)

lemma wordPass_subseq: "subseq (map pairOf (wordPass rt index query)) (index_words index)"
proof (cases "isGeezQuery query")
  case True
  show ?thesis
    using foldl_wordStep_geez [OF True, of rt "[]" "index_words index"]
    by (simp add: wordPass_def pairOf_geez del: map_map)
next
  case False
  show ?thesis
    using foldl_wordStep_latin [OF False, of rt "[]" "index_words index"]
    by (simp add: wordPass_def pairOf_latin)
qed

lemma versePass_subseq: "subseq (versePass rt index query) (index_verses index)"
  by (simp add: versePass_filter)

lemma gematriaPass_subseq: "subseq (map pairOf (gematriaPass index query)) (index_words index)"
  by (simp add: gematriaPass_filter pairOf_gematria del: map_map)

lemma showNat_60: "showNat 60 = lit ''60''" "showNat 10 = lit ''10''"
  by (simp_all add: showNat.simps lit_def)

lemma performSearch_render:
  "resultsHtml (performSearch rt e st query) = render rt e query (fst (search rt e st query))"
  by (simp add: performSearch_def split: prod.splits)

lemma map_filter_all:
  assumes "F d = Some l"
  shows "List.map_filter (\<lambda>(g, d). map_option (wordMatchOf g d) (F d)) (map (\<lambda>i. (k i, d)) xs) =
     map (\<lambda>i. wordMatchOf (k i) d l) xs"
  using assms by (induction xs) auto

lemma peace_matches_exEntry:
  "matchedField asciiRuntime (toLowerCase asciiRuntime (lit ''peace'')) exEntry =
     Some (lit ''Definition'')"
  by (simp add: matchedField_cases fieldText_def exEntry_def asciiRuntime_def asciiLower_def
      lit_def includesStr_sublist [symmetric])

lemma sixty_search:
  "fst (search asciiRuntime sixtyEnv st0 (lit ''peace'')) =
     Matches sixtyIndex
       (map (\<lambda>i. wordMatchOf (exWord @ [of_nat (0x1200 + i)]) exEntry (lit ''Definition'')) [0..<60])
       [exVerse] []"
proof -
  have l: "fst (loadSearchIndex sixtyEnv st0) = Some sixtyIndex"
    by (simp add: loadSearchIndex_def sixtyEnv_def st0_def sixtyIndex_def Let_def)
  have q: "2 \<le> length (lit ''peace'')" "\<not> isGeezQuery (lit ''peace'')"
    "\<not> allDigits (lit ''peace'')"
    by (simp_all add: lit_def isGeezQuery_def allDigits_def isDigit_def)
  have w: "wordPass asciiRuntime sixtyIndex (lit ''peace'') =
      map (\<lambda>i. wordMatchOf (exWord @ [of_nat (0x1200 + i)]) exEntry (lit ''Definition'')) [0..<60]"
    using foldl_wordStep_latin [OF q(2), of asciiRuntime "[]" "index_words sixtyIndex"]
      map_filter_all [where F = "matchedField asciiRuntime (toLowerCase asciiRuntime (lit ''peace''))"
        and d = exEntry and l = "lit ''Definition''"
        and k = "\<lambda>i. exWord @ [of_nat (0x1200 + i)]" and xs = "[0..<60]",
        OF peace_matches_exEntry]
    by (simp add: wordPass_def sixtyIndex_def sixtyWords_def)
  have v: "versePass asciiRuntime sixtyIndex (lit ''peace'') = [exVerse]"
    by (simp add: versePass_filter isGeezQuery_def sixtyIndex_def exVerse_def asciiRuntime_def
        asciiLower_def lit_def includesStr_sublist [symmetric])
  have g: "gematriaPass sixtyIndex (lit ''peace'') = []"
    by (simp add: gematriaPass_filter q)
  show ?thesis
    by (simp add: search_loaded [OF q(1) l] w v g)
qed

text \<open>
  C4. The markup of a result is the summary with the count of all matches, then the word
  section, the verse section and the gematria section; the label of a section carries the
  count of all its matches; the word section holds the items of the first 50 word
  matches, the verse section those of the first 30 verse matches, the gematria section
  those of all gematria matches, each item being the markup of its match. With 60 word
  matches the word section is the label with 60, the items of 50 matches and the note of
  10 more. Each of the three lists is a subsequence of the lexicon entries or of the
  verses in their own order.
\<close>

theorem result_truncation:
  \<open>render rt e query (Matches index wms vms gms) =
     (if wms = [] \<and> vms = [] \<and> gms = [] then noResultsMarkup query
      else summaryMarkup (length wms + length vms + length gms) @
           wordsMarkup e index (length wms) (take 50 wms) @
           versesMarkup rt e (toLowerCase rt query) (length vms) (take 30 vms) @
           gematriaMarkup query (length gms) gms)
   \<and> (length wms = 60 \<longrightarrow>
        length (take 50 wms) = 50 \<and>
        wordSection e index wms [] =
          lit ''<div class="search-section-label">Words (60)</div>'' @
          concat (map (wordItemMarkup e index) (take 50 wms)) @
          lit ''<div class="search-more">... and 10 more word matches</div>'')
   \<and> (2 \<le> length query \<and> fst (loadSearchIndex e st) = Some index \<longrightarrow>
        subseq (map pairOf (wordMatches (fst (search rt e st query)))) (index_words index) \<and>
        subseq (verseMatches (fst (search rt e st query))) (index_verses index) \<and>
        subseq (map pairOf (gematriaMatches (fst (search rt e st query)))) (index_words index))\<close>
proof -
  have r: "render rt e query (Matches index wms vms gms) =
     (if wms = [] \<and> vms = [] \<and> gms = [] then noResultsMarkup query
      else summaryMarkup (length wms + length vms + length gms) @
           wordsMarkup e index (length wms) (take 50 wms) @
           versesMarkup rt e (toLowerCase rt query) (length vms) (take 30 vms) @
           gematriaMarkup query (length gms) gms)"
    by (simp only: render_def outcome.case buildHtml_markup)
  have c: \<open>length (take 50 wms) = 50 \<and>
        wordSection e index wms [] =
          lit ''<div class="search-section-label">Words (60)</div>'' @
          concat (map (wordItemMarkup e index) (take 50 wms)) @
          lit ''<div class="search-more">... and 10 more word matches</div>''\<close>
    if "length wms = 60"
    using that
    by (simp add: wordSection_markup wordsMarkup_def showNat_60 lit_def)
  have o: "subseq (map pairOf (wordMatches (fst (search rt e st query)))) (index_words index) \<and>
        subseq (verseMatches (fst (search rt e st query))) (index_verses index) \<and>
        subseq (map pairOf (gematriaMatches (fst (search rt e st query)))) (index_words index)"
    if "2 \<le> length query" "fst (loadSearchIndex e st) = Some index"
    by (simp add: search_loaded [OF that] wordPass_subseq versePass_subseq gematriaPass_subseq)
  from r c o show ?thesis by blast
qed

theorem result_truncation_witness:
  \<open>resultsHtml (performSearch asciiRuntime exEnv st0 (lit ''peace'')) =
     lit ''<div class="search-summary">2 results found</div>'' @
     lit ''<div class="search-section-label">Words (1)</div>'' @
     lit ''<div class="search-result-item"><div class="search-result-word">'' @
     lit ''<span class="search-geez">'' @ exWord @ lit ''</span>'' @
     lit ''<span class="search-trans">selam</span>'' @
     lit ''<span class="search-match-type">Definition</span></div>'' @
     lit ''<div class="search-result-def">peace</div>'' @
     lit ''<div class="search-result-locations">'' @
     lit ''<a href="1_enoch/1.html#v1-1" class="search-verse-link">1:1</a></div></div>'' @
     lit ''<div class="search-section-label">Verses (1)</div>'' @
     lit ''<div class="search-result-item">'' @
     lit ''<a href="1_enoch/1.html#v1-1" class="search-verse-ref">1:1</a>'' @
     lit ''<div class="search-verse-text"><mark class="search-highlight">Peace</mark>'' @
     lit '' be with you</div></div>''
   \<and> length (wordMatches (fst (search asciiRuntime sixtyEnv st0 (lit ''peace'')))) = 60
   \<and> resultsHtml (performSearch asciiRuntime sixtyEnv st0 (lit ''peace'')) =
       lit ''<div class="search-summary">61 results found</div>'' @
       lit ''<div class="search-section-label">Words (60)</div>'' @
       concat (map (wordItemMarkup sixtyEnv sixtyIndex)
                 (take 50 (wordMatches (fst (search asciiRuntime sixtyEnv st0 (lit ''peace'')))))) @
       lit ''<div class="search-more">... and 10 more word matches</div>'' @
       lit ''<div class="search-section-label">Verses (1)</div>'' @
       lit ''<div class="search-result-item">'' @
       lit ''<a href="1.html#v1-1" class="search-verse-ref">1:1</a>'' @
       lit ''<div class="search-verse-text"><mark class="search-highlight">Peace</mark>'' @
       lit '' be with you</div></div>''
   \<and> subseq (map pairOf (wordMatches (fst (search asciiRuntime exEnv st0 (lit ''peace'')))))
        (index_words exIndex)\<close>
proof -
  let ?q = "lit ''peace''"
  let ?wm = "wordMatchOf exWord exEntry (lit ''Definition'')"
  let ?wms = "map (\<lambda>i. wordMatchOf (exWord @ [of_nat (0x1200 + i)]) exEntry (lit ''Definition''))
                [0..<60]"
  have l: "2 \<le> length ?q \<and> fst (loadSearchIndex exEnv st0) = Some exIndex"
    by (simp add: lit_def load_ex)
  have e: "fst (search asciiRuntime exEnv st0 ?q) = Matches exIndex [?wm] [exVerse] []"
    by (simp add: search_def loadSearchIndex_def exEnv_def exIndex_def exEntry_def exVerse_def
        st0_def wordPass_def versePass_def gematriaPass_def wordStep_def isGeezQuery_def
        allDigits_def isDigit_def asciiRuntime_def asciiLower_def wordMatchOf_def lit_def
        exWord_def Let_def)
  have n: "length ?wms = 60"
    by simp
  have a: \<open>render asciiRuntime exEnv ?q (Matches exIndex [?wm] [exVerse] []) =
     lit ''<div class="search-summary">2 results found</div>'' @
     lit ''<div class="search-section-label">Words (1)</div>'' @
     lit ''<div class="search-result-item"><div class="search-result-word">'' @
     lit ''<span class="search-geez">'' @ exWord @ lit ''</span>'' @
     lit ''<span class="search-trans">selam</span>'' @
     lit ''<span class="search-match-type">Definition</span></div>'' @
     lit ''<div class="search-result-def">peace</div>'' @
     lit ''<div class="search-result-locations">'' @
     lit ''<a href="1_enoch/1.html#v1-1" class="search-verse-link">1:1</a></div></div>'' @
     lit ''<div class="search-section-label">Verses (1)</div>'' @
     lit ''<div class="search-result-item">'' @
     lit ''<a href="1_enoch/1.html#v1-1" class="search-verse-ref">1:1</a>'' @
     lit ''<div class="search-verse-text"><mark class="search-highlight">Peace</mark>'' @
     lit '' be with you</div></div>''\<close>
    using result_truncation [of asciiRuntime exEnv ?q exIndex "[?wm]" "[exVerse]" "[]" st0]
    by (simp add: summaryMarkup_def wordsMarkup_def versesMarkup_def gematriaMarkup_def
        wordItemMarkup_def verseItemMarkup_def wordLocations_def locationLink_def
        highlightMatch_def escapeHtml_def escapeUnit_def asciiRuntime_def asciiLower_def
        asciiUpper_def wordMatchOf_def exIndex_def exVerse_def exEntry_def exEnv_def exWord_def
        showNat.simps lit_def)
  have v: \<open>versesMarkup asciiRuntime sixtyEnv (toLowerCase asciiRuntime ?q) 1 [exVerse] =
       lit ''<div class="search-section-label">Verses (1)</div>'' @
       lit ''<div class="search-result-item">'' @
       lit ''<a href="1.html#v1-1" class="search-verse-ref">1:1</a>'' @
       lit ''<div class="search-verse-text"><mark class="search-highlight">Peace</mark>'' @
       lit '' be with you</div></div>''\<close>
    by (simp add: versesMarkup_def verseItemMarkup_def highlightMatch_def escapeHtml_def
        escapeUnit_def asciiRuntime_def asciiLower_def asciiUpper_def exVerse_def sixtyEnv_def
        showNat.simps lit_def)
  have s: \<open>summaryMarkup 61 = lit ''<div class="search-summary">61 results found</div>''\<close>
    by (simp add: summaryMarkup_def showNat.simps lit_def)
  have b: \<open>render asciiRuntime sixtyEnv ?q (Matches sixtyIndex ?wms [exVerse] []) =
       lit ''<div class="search-summary">61 results found</div>'' @
       lit ''<div class="search-section-label">Words (60)</div>'' @
       concat (map (wordItemMarkup sixtyEnv sixtyIndex) (take 50 ?wms)) @
       lit ''<div class="search-more">... and 10 more word matches</div>'' @
       lit ''<div class="search-section-label">Verses (1)</div>'' @
       lit ''<div class="search-result-item">'' @
       lit ''<a href="1.html#v1-1" class="search-verse-ref">1:1</a>'' @
       lit ''<div class="search-verse-text"><mark class="search-highlight">Peace</mark>'' @
       lit '' be with you</div></div>''\<close>
  proof -
    have t: "render asciiRuntime sixtyEnv ?q (Matches sixtyIndex ?wms [exVerse] []) =
        summaryMarkup 61 @ wordsMarkup sixtyEnv sixtyIndex 60 (take 50 ?wms) @
        versesMarkup asciiRuntime sixtyEnv (toLowerCase asciiRuntime ?q) 1 [exVerse] @
        gematriaMarkup ?q 0 []"
      using result_truncation [of asciiRuntime sixtyEnv ?q sixtyIndex ?wms "[exVerse]" "[]" st0] n
      by simp
    have u: \<open>wordsMarkup sixtyEnv sixtyIndex 60 (take 50 ?wms) =
        lit ''<div class="search-section-label">Words (60)</div>'' @
        concat (map (wordItemMarkup sixtyEnv sixtyIndex) (take 50 ?wms)) @
        lit ''<div class="search-more">... and 10 more word matches</div>''\<close>
      using result_truncation [of asciiRuntime sixtyEnv ?q sixtyIndex ?wms "[exVerse]" "[]" st0]
        wordSection_markup [of sixtyEnv sixtyIndex ?wms "[]"] n
      by simp
    show ?thesis
      by (simp only: t u v s gematriaMarkup_def) simp
  qed
  have o: "subseq (map pairOf (wordMatches (fst (search asciiRuntime exEnv st0 ?q))))
      (index_words exIndex)"
    using result_truncation [of asciiRuntime exEnv ?q exIndex "[]" "[]" "[]" st0] l by blast
  have A: "resultsHtml (performSearch asciiRuntime exEnv st0 ?q) =
      render asciiRuntime exEnv ?q (Matches exIndex [?wm] [exVerse] [])"
    by (simp only: performSearch_render e)
  have B: "length (wordMatches (fst (search asciiRuntime sixtyEnv st0 ?q))) = 60"
    by (simp add: sixty_search)
  have C: "resultsHtml (performSearch asciiRuntime sixtyEnv st0 ?q) =
      render asciiRuntime sixtyEnv ?q (Matches sixtyIndex ?wms [exVerse] [])"
    by (simp only: performSearch_render sixty_search)
  have D: "wordMatches (fst (search asciiRuntime sixtyEnv st0 ?q)) = ?wms"
    by (simp add: sixty_search)
  show ?thesis
    unfolding A C D a b
    using B o D by simp
qed

lemmas eval_defs = performSearch_def search_def loadSearchIndex_def
     wordPass_def versePass_def gematriaPass_def wordStep_def isGeezQuery_def allDigits_def isDigit_def parseInt_def
     asciiRuntime_def asciiLower_def asciiUpper_def render_def buildHtml_def wordSection_def verseSection_def gematriaSection_def gematriaItem_def
     wordItem_def verseItem_def highlightMatch_def chapterBase_def splitColon0_def
     escapeHtml_def escapeUnit_def showInt_def Let_def
     performSearchDoc_def loadSearchDocument_def envOf_def

text \<open>
  C5, at two inputs. The transliteration of an entry is put into the markup as it is
  stored, where the definition beside it is escaped: an entry whose transliteration is an
  \<open>img\<close> element puts that element into the result. The highlighting runs on the
  escaped verse text: for the verse \<open>camp & fire\<close> the query \<open>amp\<close> is marked
  inside the entity of the ampersand as well.
\<close>

theorem markup_not_escaped:
  \<open>resultsHtml (performSearch asciiRuntime markupEnv st0 (lit ''sun'')) =
     lit ''<div class="search-summary">1 result found</div>'' @
     lit ''<div class="search-section-label">Words (1)</div>'' @
     lit ''<div class="search-result-item"><div class="search-result-word">'' @
     lit ''<span class="search-geez">'' @ exWord @ lit ''</span>'' @
     lit ''<span class="search-trans"><img src=x onerror=alert(1)></span>'' @
     lit ''<span class="search-match-type">Definition</span></div>'' @
     lit ''<div class="search-result-def">sun</div>'' @
     lit ''<div class="search-result-locations"></div></div>''
   \<and> resultsHtml (performSearch asciiRuntime campEnv st0 (lit ''amp'')) =
     lit ''<div class="search-summary">1 result found</div>'' @
     lit ''<div class="search-section-label">Verses (1)</div>'' @
     lit ''<div class="search-result-item">'' @
     lit ''<a href="2.html#v2-3" class="search-verse-ref">2:3</a>'' @
     lit ''<div class="search-verse-text">c<mark class="search-highlight">amp</mark> '' @
     lit ''&<mark class="search-highlight">amp</mark>; fire</div></div>''\<close>
  by (simp add: eval_defs markupEnv_def markupEntry_def campEnv_def campVerse_def st0_def
      exWord_def lit_def showNat.simps)

section \<open>Short queries and a failed load\<close>

text \<open>
  C6. When the trimmed input has fewer than two code units (the \<open>length\<close> of a
  JavaScript string), the result is the hint for short queries with no matches, whatever
  the page offers and whatever index is loaded, and the state is otherwise unchanged: no
  load is attempted. Outside the surrogate pairs a character is one code unit, so this
  holds for every input of fewer than two characters that has none, the empty string and
  a single Ethiopic character among them.
\<close>

lemma chars_bmp: "\<forall>c \<in> set s. \<not> isHighSurrogate c \<Longrightarrow> length (chars s) = length s"
  by (induction s rule: chars.induct) auto

theorem too_short_hint:
  "(length (trim val) < 2 \<longrightarrow>
      search rt e st (trim val) = (TooShort, st)
      \<and> onInput rt e st val = st\<lparr>resultsHtml := tooShortMarkup\<rparr>
      \<and> wordMatches (fst (search rt e st (trim val))) = []
      \<and> verseMatches (fst (search rt e st (trim val))) = []
      \<and> gematriaMatches (fst (search rt e st (trim val))) = [])
   \<and> ((\<forall>c \<in> set (trim val). \<not> isHighSurrogate c) \<and> length (chars (trim val)) < 2 \<longrightarrow>
        onInput rt e st val = st\<lparr>resultsHtml := tooShortMarkup\<rparr>)"
proof -
  have a: "search rt e st (trim val) = (TooShort, st)
      \<and> onInput rt e st val = st\<lparr>resultsHtml := tooShortMarkup\<rparr>
      \<and> wordMatches (fst (search rt e st (trim val))) = []
      \<and> verseMatches (fst (search rt e st (trim val))) = []
      \<and> gematriaMatches (fst (search rt e st (trim val))) = []"
    if "length (trim val) < 2"
    using that
    by (simp add: search_short onInput_def performSearch_def render_def tooShortMarkup_def)
  have b: "length (trim val) < 2"
    if "\<forall>c \<in> set (trim val). \<not> isHighSurrogate c" "length (chars (trim val)) < 2"
    using that chars_bmp [of "trim val"] by simp
  from a b show ?thesis by blast
qed

theorem too_short_hint_witness:
  "length (trim [0x20, 0x1230, 0x20]) < 2
   \<and> length (chars (trim [0x20, 0x1230, 0x20])) < 2
   \<and> onInput asciiRuntime exEnv st0 [0x20, 0x1230, 0x20] = st0\<lparr>resultsHtml := tooShortMarkup\<rparr>
   \<and> onInput asciiRuntime exEnv st0 [] = st0\<lparr>resultsHtml := tooShortMarkup\<rparr>"
proof -
  have t: "trim [0x20, 0x1230, 0x20] = [0x1230]" "trim [] = []"
    by (simp_all add: trim_def isWhiteSpace_def)
  have h: "length (trim [0x20, 0x1230, 0x20]) < 2" "length (trim []) < 2"
    "\<forall>c \<in> set (trim [0x20, 0x1230, 0x20]). \<not> isHighSurrogate c"
    "length (chars (trim [0x20, 0x1230, 0x20])) < 2"
    by (simp_all add: t isHighSurrogate_def)
  show ?thesis
    using h too_short_hint [of "[0x20, 0x1230, 0x20]" asciiRuntime exEnv st0]
      too_short_hint [of "[]" asciiRuntime exEnv st0]
    by simp
qed

lemma render_fixed:
  "render rt e query TooShort = tooShortMarkup"
  "render rt e query IndexUnavailable = unavailableMarkup"
  by (simp_all add: render_def tooShortMarkup_def unavailableMarkup_def)

lemma loadSearchDocument_fails:
  assumes "storedIndex s = None"
    and "indexDocument p = None \<or> (pageWordData p = None \<and> wordsDocument p = None)"
  shows "loadSearchDocument p s = (None, s)"
  using assms by (auto simp: loadSearchDocument_def split: option.splits)

lemma performSearchDoc_failing:
  assumes "storedIndex s = None"
    and "indexDocument p = None \<or> (pageWordData p = None \<and> wordsDocument p = None)"
  shows "performSearchDoc rt p s query =
     (Normal, s\<lparr>shownHtml := (if length query < 2 then tooShortMarkup else unavailableMarkup)\<rparr>)"
  using loadSearchDocument_fails [OF assms]
  by (auto simp: performSearchDoc_def render_fixed)

lemma runQueries_failing:
  assumes "indexDocument p = None \<or> (pageWordData p = None \<and> wordsDocument p = None)"
  shows "storedIndex s = None \<Longrightarrow>
     runQueries rt p s qs =
       (replicate (length qs) Normal,
        if qs = [] then s
        else s\<lparr>shownHtml := (if length (last qs) < 2 then tooShortMarkup else unavailableMarkup)\<rparr>)"
proof (induction qs arbitrary: s)
  case Nil
  show ?case by simp
next
  case (Cons q qs)
  let ?s = "s\<lparr>shownHtml := (if length q < 2 then tooShortMarkup else unavailableMarkup)\<rparr>"
  have p: "performSearchDoc rt p s q = (Normal, ?s)"
    by (rule performSearchDoc_failing [OF Cons.prems assms])
  have n: "storedIndex ?s = None"
    using Cons.prems by simp
  show ?case
    by (simp add: p Cons.IH [OF n])
qed

lemma performSearchDoc_loads:
  assumes "storedIndex s = None" and "indexDocument p = Some (WithVerses vs)"
    and "pageWordData p = Some w \<or> (pageWordData p = None \<and> wordsDocument p = Some w)"
    and "2 \<le> length query"
  shows "performSearchDoc rt p s query =
     (Normal,
      s\<lparr>storedIndex := Some \<lparr>loaded_document = WithVerses vs, loaded_words = w\<rparr>,
        shownHtml :=
          render rt (envOf p) query
            (Matches \<lparr>index_verses = vs, index_words = w\<rparr>
               (wordPass rt \<lparr>index_verses = vs, index_words = w\<rparr> query)
               (versePass rt \<lparr>index_verses = vs, index_words = w\<rparr> query)
               (gematriaPass \<lparr>index_verses = vs, index_words = w\<rparr> query))\<rparr>)"
  using assms
  by (auto simp: performSearchDoc_def loadSearchDocument_def Let_def)

text \<open>
  On pages whose index document has the verses array, and from a state of the search on
  such documents, the search with the shape left open is the search defined first; a
  document without the array makes a query that is not script-native end in a TypeError.
\<close>

lemma performSearchDoc_typed:
  assumes "indexDocument p \<noteq> Some WithoutVerses"
  shows "performSearchDoc rt p (sessionOf st) query =
     (Normal, sessionOf (performSearch rt (envOf p) st query))"
proof (cases "length query < 2")
  case True
  then show ?thesis
    by (auto simp: performSearchDoc_def performSearch_def search_def sessionOf_def)
next
  case False
  show ?thesis
  proof (cases "searchIndex st")
    case (Some ix)
    then show ?thesis
      using False
      by (cases ix)
        (auto simp: performSearchDoc_def performSearch_def search_def sessionOf_def
          loadSearchDocument_def loadSearchIndex_def Let_def)
  next
    case None
    show ?thesis
    proof (cases "indexDocument p")
      case n: None
      then show ?thesis
        using False None
        by (auto simp: performSearchDoc_def performSearch_def search_def sessionOf_def
            loadSearchDocument_def loadSearchIndex_def envOf_def)
    next
      case (Some d)
      then obtain vs where d: "indexDocument p = Some (WithVerses vs)"
        using assms by (cases d) auto
      show ?thesis
        using False None d
        by (auto simp: performSearchDoc_def performSearch_def search_def sessionOf_def
            loadSearchDocument_def loadSearchIndex_def envOf_def Let_def split: option.splits)
    qed
  qed
qed

lemma document_without_verses_throws:
  assumes "storedIndex s = None" and "indexDocument p = Some WithoutVerses"
    and "pageWordData p = Some w" and "2 \<le> length query" and "\<not> isGeezQuery query"
  shows "performSearchDoc rt p s query =
     (TypeError, s\<lparr>storedIndex := Some \<lparr>loaded_document = WithoutVerses, loaded_words = w\<rparr>\<rparr>)"
  using assms
  by (auto simp: performSearchDoc_def loadSearchDocument_def Let_def)

lemma malformed_document_example:
  "performSearchDoc asciiRuntime (exPage\<lparr>indexDocument := Some WithoutVerses\<rparr>) s0 (lit ''peace'') =
     (TypeError,
      s0\<lparr>storedIndex := Some \<lparr>loaded_document = WithoutVerses,
                                loaded_words = [(exWord, exEntry)]\<rparr>\<rparr>)"
  by (simp add: eval_defs exPage_def s0_def lit_def)

text \<open>
  C8, as the code has it. A failed load is not remembered: after it a query of one
  character is answered by the hint for short queries, and a query issued when the
  fetches succeed loads the index and returns its matches.
\<close>

theorem retry_after_failure_counterexample:
  \<open>performSearchDoc asciiRuntime failPage s0 (lit ''peace'') =
     (Normal, s0\<lparr>shownHtml := unavailableMarkup\<rparr>)
   \<and> performSearchDoc asciiRuntime failPage (s0\<lparr>shownHtml := unavailableMarkup\<rparr>) (lit ''p'') =
       (Normal, s0\<lparr>shownHtml := tooShortMarkup\<rparr>)
   \<and> tooShortMarkup \<noteq> unavailableMarkup
   \<and> performSearchDoc asciiRuntime exPage (s0\<lparr>shownHtml := unavailableMarkup\<rparr>) (lit ''135'') =
       (Normal,
        \<lparr>storedIndex = Some \<lparr>loaded_document = WithVerses [exVerse],
                              loaded_words = [(exWord, exEntry)]\<rparr>,
         shownHtml =
           lit ''<div class="search-summary">1 result found</div>'' @
           lit ''<div class="search-section-label">Gematria = 135 (1)</div>'' @
           lit ''<div class="search-result-item"><span class="search-geez">'' @ exWord @
           lit ''</span> <span class="search-trans">selam</span> '' @
           lit ''<span class="search-gematria-val">G: 135</span>'' @
           lit ''<div class="search-result-def">peace</div></div>''\<rparr>)\<close>
  by (simp add: eval_defs failPage_def exPage_def exEntry_def exVerse_def s0_def
      exWord_def lit_def unavailableMarkup_def tooShortMarkup_def showNat.simps)

text \<open>
  C8, amended. When no index is stored and a fetch or its parse fails,
  \<open>loadSearchIndex\<close> returns \<open>null\<close> and leaves the state as it is. Every query of a
  sequence on such a page returns normally and stores no index, and after the last one
  the results element holds the explicit message that the index is not available when
  that query has at least two code units, and the hint for short queries otherwise. A
  query of at least two code units issued after that on a page whose index document has
  the verses array and whose lexicon is at hand stores the index and shows the markup of
  its matches.
\<close>

theorem load_failure_recoverable:
  assumes "storedIndex s = None"
    and "indexDocument p = None \<or> (pageWordData p = None \<and> wordsDocument p = None)"
  shows "loadSearchDocument p s = (None, s)
       \<and> runQueries rt p s qs =
           (replicate (length qs) Normal,
            if qs = [] then s
            else s\<lparr>shownHtml :=
                     (if length (last qs) < 2 then tooShortMarkup else unavailableMarkup)\<rparr>)
       \<and> (indexDocument p' = Some (WithVerses vs) \<and>
          (pageWordData p' = Some w \<or> (pageWordData p' = None \<and> wordsDocument p' = Some w)) \<and>
          2 \<le> length query \<longrightarrow>
            performSearchDoc rt p' (snd (runQueries rt p s qs)) query =
              (Normal,
               (snd (runQueries rt p s qs))
                 \<lparr>storedIndex := Some \<lparr>loaded_document = WithVerses vs, loaded_words = w\<rparr>,
                  shownHtml :=
                    render rt (envOf p') query
                      (Matches \<lparr>index_verses = vs, index_words = w\<rparr>
                         (wordPass rt \<lparr>index_verses = vs, index_words = w\<rparr> query)
                         (versePass rt \<lparr>index_verses = vs, index_words = w\<rparr> query)
                         (gematriaPass \<lparr>index_verses = vs, index_words = w\<rparr> query))\<rparr>))"
proof -
  have r: "runQueries rt p s qs =
           (replicate (length qs) Normal,
            if qs = [] then s
            else s\<lparr>shownHtml :=
                     (if length (last qs) < 2 then tooShortMarkup else unavailableMarkup)\<rparr>)"
    by (rule runQueries_failing [OF assms(2) assms(1)])
  then have n: "storedIndex (snd (runQueries rt p s qs)) = None"
    using assms(1) by simp
  show ?thesis
    using loadSearchDocument_fails [OF assms] r
      performSearchDoc_loads [OF n, of p' vs w query rt]
    by blast
qed

theorem load_failure_recoverable_witness:
  \<open>storedIndex s0 = None \<and> indexDocument failPage = None
   \<and> loadSearchDocument failPage s0 = (None, s0)
   \<and> runQueries asciiRuntime failPage s0 [lit ''p'', lit ''peace''] =
       ([Normal, Normal], s0\<lparr>shownHtml := unavailableMarkup\<rparr>)
   \<and> performSearchDoc asciiRuntime exPage
        (snd (runQueries asciiRuntime failPage s0 [lit ''p'', lit ''peace''])) (lit ''135'') =
       (Normal,
        \<lparr>storedIndex = Some \<lparr>loaded_document = WithVerses [exVerse],
                              loaded_words = [(exWord, exEntry)]\<rparr>,
         shownHtml =
           lit ''<div class="search-summary">1 result found</div>'' @
           lit ''<div class="search-section-label">Gematria = 135 (1)</div>'' @
           lit ''<div class="search-result-item"><span class="search-geez">'' @ exWord @
           lit ''</span> <span class="search-trans">selam</span> '' @
           lit ''<span class="search-gematria-val">G: 135</span>'' @
           lit ''<div class="search-result-def">peace</div></div>''\<rparr>)\<close>
proof -
  have h: "storedIndex s0 = None"
    "indexDocument failPage = None \<or> (pageWordData failPage = None \<and> wordsDocument failPage = None)"
    by (simp_all add: s0_def failPage_def)
  have x: "indexDocument exPage = Some (WithVerses [exVerse]) \<and>
      (pageWordData exPage = Some [(exWord, exEntry)] \<or>
       (pageWordData exPage = None \<and> wordsDocument exPage = Some [(exWord, exEntry)])) \<and>
      2 \<le> length (lit ''135'')"
    by (simp add: exPage_def lit_def)
  have r: \<open>render asciiRuntime (envOf exPage) (lit ''135'')
      (Matches \<lparr>index_verses = [exVerse], index_words = [(exWord, exEntry)]\<rparr>
         (wordPass asciiRuntime \<lparr>index_verses = [exVerse], index_words = [(exWord, exEntry)]\<rparr>
            (lit ''135''))
         (versePass asciiRuntime \<lparr>index_verses = [exVerse], index_words = [(exWord, exEntry)]\<rparr>
            (lit ''135''))
         (gematriaPass \<lparr>index_verses = [exVerse], index_words = [(exWord, exEntry)]\<rparr>
            (lit ''135''))) =
           lit ''<div class="search-summary">1 result found</div>'' @
           lit ''<div class="search-section-label">Gematria = 135 (1)</div>'' @
           lit ''<div class="search-result-item"><span class="search-geez">'' @ exWord @
           lit ''</span> <span class="search-trans">selam</span> '' @
           lit ''<span class="search-gematria-val">G: 135</span>'' @
           lit ''<div class="search-result-def">peace</div></div>''\<close>
    by (simp add: eval_defs exPage_def exEntry_def exVerse_def exWord_def lit_def showNat.simps)
  note t = load_failure_recoverable [OF h, of asciiRuntime "[lit ''p'', lit ''peace'']" exPage
      "[exVerse]" "[(exWord, exEntry)]" "lit ''135''"]
  have c1: "loadSearchDocument failPage s0 = (None, s0)"
    using t by blast
  have c2: "runQueries asciiRuntime failPage s0 [lit ''p'', lit ''peace''] =
      ([Normal, Normal], s0\<lparr>shownHtml := unavailableMarkup\<rparr>)"
    using t [THEN conjunct2, THEN conjunct1] by (simp add: lit_def)
  have c3: "performSearchDoc asciiRuntime exPage
        (snd (runQueries asciiRuntime failPage s0 [lit ''p'', lit ''peace''])) (lit ''135'') =
      (Normal,
       (snd (runQueries asciiRuntime failPage s0 [lit ''p'', lit ''peace'']))
         \<lparr>storedIndex := Some \<lparr>loaded_document = WithVerses [exVerse],
                                 loaded_words = [(exWord, exEntry)]\<rparr>,
          shownHtml :=
            render asciiRuntime (envOf exPage) (lit ''135'')
              (Matches \<lparr>index_verses = [exVerse], index_words = [(exWord, exEntry)]\<rparr>
                 (wordPass asciiRuntime
                    \<lparr>index_verses = [exVerse], index_words = [(exWord, exEntry)]\<rparr> (lit ''135''))
                 (versePass asciiRuntime
                    \<lparr>index_verses = [exVerse], index_words = [(exWord, exEntry)]\<rparr> (lit ''135''))
                 (gematriaPass
                    \<lparr>index_verses = [exVerse], index_words = [(exWord, exEntry)]\<rparr>
                    (lit ''135'')))\<rparr>)"
    using t [THEN conjunct2, THEN conjunct2] x by blast
  have u: "(s0\<lparr>shownHtml := unavailableMarkup\<rparr>)
      \<lparr>storedIndex := Some \<lparr>loaded_document = WithVerses [exVerse],
                              loaded_words = [(exWord, exEntry)]\<rparr>,
       shownHtml := X\<rparr> =
      \<lparr>storedIndex = Some \<lparr>loaded_document = WithVerses [exVerse],
                              loaded_words = [(exWord, exEntry)]\<rparr>,
       shownHtml = X\<rparr>" for X
    by (simp add: s0_def)
  show ?thesis
    using h(1) c1 c2 c3
    by (simp only: r c2 snd_conv u) (simp add: failPage_def)
qed

section \<open>Properties of the transliteration display and the definition lookup\<close>

text \<open>
  C9. \<open>getWordTranslit\<close> is the lookup chain of the providers \<open>geezDefs\<close> and
  \<open>wordData\<close>, in this order: the first stored transliteration that is not empty,
  and the computed \<open>transliterate\<close> of the word exactly when there is none.
\<close>

theorem translit_lookup_chain:
  "getWordTranslit geezDefs wordData w =
     (case firstNonEmpty [storedTranslit geezDefs w, storedTranslit wordData w] of
        Some t \<Rightarrow> t
      | None \<Rightarrow> transliterate w)"
  by (simp add: getWordTranslit_def storedTranslit_def Let_def split: option.splits)

theorem translit_lookup_chain_witness:
  "getWordTranslit None (Some [exWord \<mapsto> exEntry]) exWord = lit ''selam''
   \<and> getWordTranslit (Some Map.empty) None exWord = transliterate exWord"
  using translit_lookup_chain [of None "Some [exWord \<mapsto> exEntry]" exWord]
    translit_lookup_chain [of "Some Map.empty" None exWord]
  by (simp add: storedTranslit_def exEntry_def lit_def)

text \<open>
  The frame of \<open>lookupDefinition\<close>: the definitions object and every object of the
  store are the same after the call; an exact key, own or inherited, gives its reference
  before any variant is tried; a variant gives a new object, the copy of the entry with
  \<open>hasVariant\<close> and \<open>variantNote\<close> set; a word that is no key and no inherited
  name, and whose form without the last code unit is none either, gives \<open>null\<close>.
\<close>

lemma lookupDefinition_frame:
  assumes "lookupDefinition inherited m w = (r, m')"
  shows "defs m' = defs m
    \<and> take (length (objects m)) (objects m') = objects m
    \<and> (case defs m of
         None \<Rightarrow> r = None \<and> m' = m
       | Some own \<Rightarrow>
           (case getProperty inherited own w of
              Some a \<Rightarrow> r = Some a \<and> m' = m
            | None \<Rightarrow>
                (case (if 1 < length w then getProperty inherited own (butlast w) else None) of
                   Some a \<Rightarrow>
                     r = Some (length (objects m)) \<and>
                     objects m' =
                       objects m @ [(objects m ! a)(lit ''hasVariant'' \<mapsto> JBoolean True,
                                      lit ''variantNote'' \<mapsto> JString (lit ''(variant form)''))]
                 | None \<Rightarrow> r = None \<and> m' = m)))"
  using assms
  by (auto simp: lookupDefinition_def Let_def butlast_conv_take split: option.splits if_splits)

lemma lookupDefinition_null:
  assumes "defs m = Some own" and "own w = None" and "own (butlast w) = None"
    and "inherited w = None" and "inherited (butlast w) = None"
  shows "lookupDefinition inherited m w = (None, m)"
  using assms
  by (simp add: lookupDefinition_def getProperty_def Let_def butlast_conv_take)


end
